theory Spec2Isabelle
  imports Main "HOL-Library.AList"
begin

section \<open>The vault orchestrator of subrose/vault\<close>

text \<open>
  The orchestrator (package \<open>vault\<close>, the file with \<open>type Vault struct\<close>) composes a
  storage backend, a privatiser, a validator and the policy engine. The storage backend
  \<open>VaultDB\<close>, the privatiser, the validator library, bcrypt and the clock are interfaces or
  libraries the orchestrator only calls: they are parameters of the model. Every method of
  \<open>Vault\<close> is a function from a world (the storage state, the log of calls made so far,
  the number of identifiers minted) to a result and the world after.

  Go maps (\<open>Record\<close>, \<open>Collection.Fields\<close>, \<open>returnFormats\<close>, the map of records the
  storage returns) are association lists: a lookup \<open>m[k]\<close> is \<open>map_of m k\<close> and a
  \<open>range\<close> loop runs over the list in its order, which stands for the order the Go
  runtime picks.
\<close>

subsection \<open>Data model\<close>

record Field =
  fld_Type :: string
  fld_IsIndexed :: bool

record Collection =
  col_Id :: string
  col_Name :: string
  col_Fields :: "(string \<times> Field) list"
  col_CreatedAt :: string
  col_UpdatedAt :: string
  col_Description :: string

record Subject =
  sub_Id :: string
  sub_Eid :: string
  sub_CreatedAt :: string
  sub_UpdatedAt :: string
  sub_Metadata :: string

type_synonym Record = "(string \<times> string) list"

type_synonym PolicyAction = string

definition PolicyActionRead :: PolicyAction where
  "PolicyActionRead = ''read''"

definition PolicyActionWrite :: PolicyAction where
  "PolicyActionWrite = ''write''"

type_synonym PolicyEffect = string

definition EffectDeny :: PolicyEffect where
  "EffectDeny = ''deny''"

definition EffectAllow :: PolicyEffect where
  "EffectAllow = ''allow''"

record Policy =
  pol_Id :: string
  pol_Name :: string
  pol_Description :: string
  pol_Effect :: PolicyEffect
  pol_Actions :: "PolicyAction list"
  pol_Resources :: "string list"
  pol_CreatedAt :: string
  pol_UpdatedAt :: string

record Principal =
  prin_Id :: string
  prin_Username :: string
  prin_Password :: string
  prin_Description :: string
  prin_CreatedAt :: string
  prin_UpdatedAt :: string
  prin_Policies :: "string list"

record Request =
  Actor :: Principal
  Action :: PolicyAction
  Resource :: string

text \<open>The zero values Go gives a struct literal with no fields, as in \<open>&ForbiddenError{}\<close>.\<close>

definition zero_Field :: Field where
  "zero_Field = \<lparr>fld_Type = [], fld_IsIndexed = False\<rparr>"

definition zero_Principal :: Principal where
  "zero_Principal = \<lparr>prin_Id = [], prin_Username = [], prin_Password = [],
     prin_Description = [], prin_CreatedAt = [], prin_UpdatedAt = [], prin_Policies = []\<rparr>"

definition zero_Request :: Request where
  "zero_Request = \<lparr>Actor = zero_Principal, Action = [], Resource = []\<rparr>"

definition COLLECTIONS_PPATH :: string where
  "COLLECTIONS_PPATH = ''/collections''"

definition PRINCIPALS_PPATH :: string where
  "PRINCIPALS_PPATH = ''/principals''"

definition RECORDS_PPATH :: string where
  "RECORDS_PPATH = ''/records''"

definition POLICIES_PPATH :: string where
  "POLICIES_PPATH = ''/policies''"

definition SUBJECTS_PPATH :: string where
  "SUBJECTS_PPATH = ''/subjects''"

subsection \<open>Errors\<close>

record ValidationError =
  FailedField :: string
  Tag :: string
  Value :: string

text \<open>
  The error values the orchestrator builds: \<open>&ForbiddenError{request}\<close>,
  \<open>&NotFoundError{name, value}\<close>, \<open>&ValueError{Msg}\<close>, \<open>ValidationErrors{errors}\<close>,
  and \<open>fmt.Errorf\<close>/\<open>errors.New\<close> strings. \<open>Panic\<close> is the \<open>panic\<close> of
  \<open>Validate\<close> on a vault without a validator. Errors of the storage backend and of the
  privatiser are values of the same type, as they are \<open>error\<close> in Go.
\<close>

datatype error =
    ForbiddenError Request
  | NotFoundError string string
  | ValueError string
  | ValidationErrors "ValidationError list"
  | ErrorString string
  | Panic string

definition ErrNotFound :: error where
  "ErrNotFound = ErrorString ''not found''"

definition ErrConflict :: error where
  "ErrConflict = ErrorString ''conflict''"

definition ErrIndexError :: error where
  "ErrIndexError = ErrorString ''index''"

subsection \<open>Collaborators\<close>

text \<open>
  \<open>VaultDB\<close>: one field per method of the interface, over a storage state \<open>'db\<close>.
  A \<open>Get\<close> method reads the state; the other methods return the state after.
\<close>

record 'db VaultDB =
  db_GetCollection :: "string \<Rightarrow> 'db \<Rightarrow> error + Collection"
  db_GetCollections :: "'db \<Rightarrow> error + string list"
  db_CreateCollection :: "Collection \<Rightarrow> 'db \<Rightarrow> (error + unit) \<times> 'db"
  db_DeleteCollection :: "string \<Rightarrow> 'db \<Rightarrow> (error + unit) \<times> 'db"
  db_CreateRecords :: "string \<Rightarrow> Record list \<Rightarrow> 'db \<Rightarrow> (error + string list) \<times> 'db"
  db_GetRecords :: "string \<Rightarrow> string list \<Rightarrow> 'db \<Rightarrow> error + (string \<times> Record) list"
  db_GetRecordsFilter :: "string \<Rightarrow> string \<Rightarrow> string \<Rightarrow> 'db \<Rightarrow> error + string list"
  db_UpdateRecord :: "string \<Rightarrow> string \<Rightarrow> Record \<Rightarrow> 'db \<Rightarrow> (error + unit) \<times> 'db"
  db_DeleteRecord :: "string \<Rightarrow> string \<Rightarrow> 'db \<Rightarrow> (error + unit) \<times> 'db"
  db_GetPrincipal :: "string \<Rightarrow> 'db \<Rightarrow> error + Principal"
  db_CreatePrincipal :: "Principal \<Rightarrow> 'db \<Rightarrow> (error + unit) \<times> 'db"
  db_DeletePrincipal :: "string \<Rightarrow> 'db \<Rightarrow> (error + unit) \<times> 'db"
  db_GetPolicy :: "string \<Rightarrow> 'db \<Rightarrow> error + Policy"
  db_GetPolicies :: "string list \<Rightarrow> 'db \<Rightarrow> error + Policy list"
  db_CreatePolicy :: "Policy \<Rightarrow> 'db \<Rightarrow> (error + unit) \<times> 'db"
  db_DeletePolicy :: "string \<Rightarrow> 'db \<Rightarrow> (error + unit) \<times> 'db"
  db_CreateToken :: "string \<Rightarrow> string \<Rightarrow> 'db \<Rightarrow> (error + unit) \<times> 'db"
  db_DeleteToken :: "string \<Rightarrow> 'db \<Rightarrow> (error + unit) \<times> 'db"
  db_GetTokenValue :: "string \<Rightarrow> 'db \<Rightarrow> error + string"
  db_CreateSubject :: "Subject \<Rightarrow> 'db \<Rightarrow> (error + unit) \<times> 'db"
  db_GetSubject :: "string \<Rightarrow> 'db \<Rightarrow> error + Subject"
  db_DeleteSubject :: "string \<Rightarrow> 'db \<Rightarrow> (error + unit) \<times> 'db"
  db_Flush :: "'db \<Rightarrow> (error + unit) \<times> 'db"

text \<open>What \<open>validator.Struct\<close> answers on a payload, as \<open>Validate\<close> tells the cases apart.\<close>

datatype payload =
    PCollection Collection
  | PPrincipal Principal
  | PPolicy Policy
  | PSubject Subject

datatype struct_result =
    StructOk
  | InvalidValidationError
  | FieldErrors "ValidationError list"

text \<open>
  The vault and what it calls. \<open>Encrypt\<close> and \<open>Decrypt\<close> return the pair Go returns
  (the string and the error, \<open>None\<close> for \<open>nil\<close>), since one caller drops the error
  and keeps the string. \<open>GetPType\<close> and the \<open>Get\<close> of the value it returns,
  \<open>GenerateId\<close>, bcrypt and \<open>time.Now\<close> are not among the orchestrator's own code:
  they are fields here. \<open>CompareHashAndPassword\<close> is \<open>True\<close> when bcrypt returns
  \<open>nil\<close>; \<open>GenerateId\<close> gets the number of identifiers minted so far.
\<close>

record ('db, 'pv) Vault =
  Db :: "'db VaultDB"
  Priv_Encrypt :: "string \<Rightarrow> string \<times> error option"
  Priv_Decrypt :: "string \<Rightarrow> string \<times> error option"
  Validator :: "(payload \<Rightarrow> struct_result) option"
  GetPType :: "string \<Rightarrow> string \<Rightarrow> error + 'pv"
  PType_Get :: "'pv \<Rightarrow> string \<Rightarrow> error + string"
  GenerateId :: "string \<Rightarrow> nat \<Rightarrow> string"
  GenerateFromPassword :: "string \<Rightarrow> string"
  CompareHashAndPassword :: "string \<Rightarrow> string \<Rightarrow> bool"
  time_Now :: string

subsection \<open>The world: storage state and the log of calls\<close>

datatype event =
    EvGetCollection string
  | EvGetCollections
  | EvCreateCollection Collection
  | EvDeleteCollection string
  | EvCreateRecords string "Record list"
  | EvGetRecords string "string list"
  | EvGetRecordsFilter string string string
  | EvUpdateRecord string string Record
  | EvDeleteRecord string string
  | EvGetPrincipal string
  | EvCreatePrincipal Principal
  | EvDeletePrincipal string
  | EvGetPolicy string
  | EvGetPolicies "string list"
  | EvCreatePolicy Policy
  | EvDeletePolicy string
  | EvCreateToken string string
  | EvDeleteToken string
  | EvGetTokenValue string
  | EvCreateSubject Subject
  | EvGetSubject string
  | EvDeleteSubject string
  | EvLogError string

record 'db world =
  store :: 'db
  trace :: "event list"
  minted :: nat

type_synonym ('a, 'db) op = "'db world \<Rightarrow> (error + 'a) \<times> 'db world"

definition returnE :: "'a \<Rightarrow> ('a, 'db) op" where
  "returnE x = (\<lambda>w. (Inr x, w))"

definition failE :: "error \<Rightarrow> ('a, 'db) op" where
  "failE e = (\<lambda>w. (Inl e, w))"

text \<open>\<open>x, err := m; if err != nil { return err }; f x\<close>\<close>

definition bindE :: "('a, 'db) op \<Rightarrow> ('a \<Rightarrow> ('b, 'db) op) \<Rightarrow> ('b, 'db) op" where
  "bindE m f = (\<lambda>w. case m w of (Inl e, w') \<Rightarrow> (Inl e, w') | (Inr x, w') \<Rightarrow> f x w')"

text \<open>A call of a reading method of \<open>vault.Db\<close>: logged, the state is left as it is.\<close>

definition db_read :: "event \<Rightarrow> ('db \<Rightarrow> error + 'a) \<Rightarrow> ('a, 'db) op" where
  "db_read ev f = (\<lambda>w. (f (store w), w\<lparr>trace := trace w @ [ev]\<rparr>))"

text \<open>A call of any other method of \<open>vault.Db\<close>: logged, the state is what the method leaves.\<close>

definition db_write :: "event \<Rightarrow> ('db \<Rightarrow> (error + 'a) \<times> 'db) \<Rightarrow> ('a, 'db) op" where
  "db_write ev f = (\<lambda>w. case f (store w) of
      (r, s) \<Rightarrow> (r, w\<lparr>store := s, trace := trace w @ [ev]\<rparr>))"

definition Logger_Error :: "string \<Rightarrow> 'db world \<Rightarrow> 'db world" where
  "Logger_Error msg w = w\<lparr>trace := trace w @ [EvLogError msg]\<rparr>"

definition mint :: "('db, 'pv) Vault \<Rightarrow> string \<Rightarrow> (string, 'db) op" where
  "mint V prefix = (\<lambda>w. (Inr (GenerateId V prefix (minted w)), w\<lparr>minted := Suc (minted w)\<rparr>))"

subsection \<open>The policy engine\<close>

text \<open>
  Modelled from the spec: \<open>EvaluateRequest\<close>, which \<open>ValidateAction\<close> calls, is not among
  the source files. Section 4.5: a resource pattern may end in a \<open>*\<close> that matches any
  suffix, and is an exact match otherwise; the request's action must be one of the
  policy's actions; all policies are iterated and those matching on both resource and
  action collected; a matched policy with effect deny gives deny, else a matched policy
  with effect allow gives allow, else deny.
\<close>

definition match_resource :: "string \<Rightarrow> string \<Rightarrow> bool" where
  "match_resource pattern resource =
     (if pattern \<noteq> [] \<and> last pattern = CHR ''*''
      then take (length pattern - 1) resource = butlast pattern
      else pattern = resource)"

definition policy_matches :: "Request \<Rightarrow> Policy \<Rightarrow> bool" where
  "policy_matches request p =
     (list_ex (\<lambda>pattern. match_resource pattern (Resource request)) (pol_Resources p)
      \<and> Action request \<in> set (pol_Actions p))"

fun collect_matched :: "Request \<Rightarrow> Policy list \<Rightarrow> Policy list" where
  "collect_matched request [] = []"
| "collect_matched request (p # ps) =
     (if policy_matches request p then p # collect_matched request ps
      else collect_matched request ps)"

text \<open>
  Modelled from the spec: \<open>EvaluateRequest\<close> is not among the source files; the
  aggregation of section 4.5 over the matched policies: explicit deny wins, else an allow
  is needed, else deny.
\<close>

definition EvaluateRequest :: "Request \<Rightarrow> Policy list \<Rightarrow> bool" where
  "EvaluateRequest request policies =
     (let matched = collect_matched request policies in
      if list_ex (\<lambda>p. pol_Effect p = EffectDeny) matched then False
      else if list_ex (\<lambda>p. pol_Effect p = EffectAllow) matched then True
      else False)"

definition ValidateAction :: "('db, 'pv) Vault \<Rightarrow> Request \<Rightarrow> (bool, 'db) op" where
  "ValidateAction V request =
     bindE (db_read (EvGetPolicies (prin_Policies (Actor request)))
              (db_GetPolicies (Db V) (prin_Policies (Actor request))))
       (\<lambda>policies.
          let allowed = EvaluateRequest request policies in
          if allowed then returnE True else returnE False)"

subsection \<open>Login\<close>

definition Login :: "('db, 'pv) Vault \<Rightarrow> string \<Rightarrow> string \<Rightarrow> (Principal, 'db) op" where
  "Login V username password =
     (if username = [] \<or> password = []
      then failE (ValueError ''username and password must not be empty'')
      else (\<lambda>w. case db_read (EvGetPrincipal username) (db_GetPrincipal (Db V) username) w of
          (Inl err, w1) \<Rightarrow> (Inl (ForbiddenError zero_Request), Logger_Error ''Error getting principal'' w1)
        | (Inr dbPrincipal, w1) \<Rightarrow>
            if prin_Username dbPrincipal = [] \<or> prin_Password dbPrincipal = []
            then (Inl (ForbiddenError zero_Request), w1)
            else if \<not> CompareHashAndPassword V (prin_Password dbPrincipal) password
            then (Inl (ForbiddenError zero_Request), w1)
            else (Inr dbPrincipal, w1)))"

subsection \<open>Helpers shared by the operations\<close>

text \<open>
  The three statements most operations open with:
  \<^verbatim>\<open>allowed, err := vault.ValidateAction(ctx, request)
  if err != nil { return err }
  if !allowed { return &ForbiddenError{request} }\<close>
\<close>

definition authorize :: "('db, 'pv) Vault \<Rightarrow> Request \<Rightarrow> (unit, 'db) op" where
  "authorize V request =
     bindE (ValidateAction V request)
       (\<lambda>allowed. if \<not> allowed then failE (ForbiddenError request) else returnE ())"

text \<open>\<open>m[k]\<close> on a Go map: the zero value when the key is absent.\<close>

definition value_of :: "Record \<Rightarrow> string \<Rightarrow> string" where
  "value_of record field = (case map_of record field of None \<Rightarrow> [] | Some v \<Rightarrow> v)"

definition field_of :: "Collection \<Rightarrow> string \<Rightarrow> Field" where
  "field_of col field = (case map_of (col_Fields col) field of None \<Rightarrow> zero_Field | Some f \<Rightarrow> f)"

text \<open>\<open>strings.HasPrefix(resource, "/")\<close>\<close>

definition HasPrefix :: "string \<Rightarrow> string \<Rightarrow> bool" where
  "HasPrefix s pre = (take (length pre) s = pre)"

text \<open>\<open>strings.Split(s, sep)\<close> for a separator of one character.\<close>

fun Split :: "string \<Rightarrow> char \<Rightarrow> string list" where
  "Split [] sep = [[]]"
| "Split (c # cs) sep =
     (if c = sep then [] # Split cs sep
      else (case Split cs sep of [] \<Rightarrow> [[c]] | x # xs \<Rightarrow> (c # x) # xs))"

definition Validate :: "('db, 'pv) Vault \<Rightarrow> payload \<Rightarrow> error option" where
  "Validate V payload =
     (case Validator V of
        None \<Rightarrow> Some (Panic ''Validator not set'')
      | Some v \<Rightarrow>
          (case v payload of
             StructOk \<Rightarrow> None
           | InvalidValidationError \<Rightarrow> Some (ValidationErrors [])
           | FieldErrors errors \<Rightarrow>
               if length errors = 0 then None else Some (ValidationErrors errors)))"

subsection \<open>Collections\<close>

definition GetCollection :: "('db, 'pv) Vault \<Rightarrow> Principal \<Rightarrow> string \<Rightarrow> (Collection, 'db) op" where
  "GetCollection V prin name =
     bindE (authorize V \<lparr>Actor = prin, Action = PolicyActionRead,
                         Resource = COLLECTIONS_PPATH @ ''/'' @ name\<rparr>)
       (\<lambda>_. db_read (EvGetCollection name) (db_GetCollection (Db V) name))"

definition GetCollections :: "('db, 'pv) Vault \<Rightarrow> Principal \<Rightarrow> (string list, 'db) op" where
  "GetCollections V prin =
     bindE (authorize V \<lparr>Actor = prin, Action = PolicyActionRead,
                         Resource = COLLECTIONS_PPATH\<rparr>)
       (\<lambda>_. db_read EvGetCollections (db_GetCollections (Db V)))"

definition CreateCollection :: "('db, 'pv) Vault \<Rightarrow> Principal \<Rightarrow> Collection \<Rightarrow> (unit, 'db) op" where
  "CreateCollection V prin col =
     bindE (authorize V \<lparr>Actor = prin, Action = PolicyActionWrite,
                         Resource = COLLECTIONS_PPATH\<rparr>)
       (\<lambda>_. case Validate V (PCollection col) of
               Some err \<Rightarrow> failE err
             | None \<Rightarrow>
                 bindE (mint V ''col'')
                   (\<lambda>newId. db_write (EvCreateCollection (col\<lparr>col_Id := newId\<rparr>))
                               (db_CreateCollection (Db V) (col\<lparr>col_Id := newId\<rparr>))))"

definition DeleteCollection :: "('db, 'pv) Vault \<Rightarrow> Principal \<Rightarrow> string \<Rightarrow> (unit, 'db) op" where
  "DeleteCollection V prin name =
     bindE (authorize V \<lparr>Actor = prin, Action = PolicyActionWrite,
                         Resource = COLLECTIONS_PPATH @ ''/'' @ name\<rparr>)
       (\<lambda>_. db_write (EvDeleteCollection name) (db_DeleteCollection (Db V) name))"

subsection \<open>Records\<close>

text \<open>
  The inner loop of \<open>CreateRecords\<close> over the fields of one record: the field must be on
  the collection, its value must pass \<open>GetPType\<close>, and the value is encrypted.
\<close>

fun encrypt_fields ::
  "('db, 'pv) Vault \<Rightarrow> Collection \<Rightarrow> string \<Rightarrow> Record \<Rightarrow> Record \<Rightarrow> error + Record" where
  "encrypt_fields V collection collectionName [] encryptedRecord = Inr encryptedRecord"
| "encrypt_fields V collection collectionName ((fieldName, fieldValue) # rest) encryptedRecord =
     (case map_of (col_Fields collection) fieldName of
        None \<Rightarrow> Inl (ValueError (''Field '' @ fieldName @ '' not found on collection '' @ collectionName))
      | Some fld \<Rightarrow>
          (case GetPType V (fld_Type fld) fieldValue of
             Inl err \<Rightarrow> Inl err
           | Inr _ \<Rightarrow>
               (case Priv_Encrypt V fieldValue of
                  (_, Some err) \<Rightarrow> Inl err
                | (encryptedValue, None) \<Rightarrow>
                    encrypt_fields V collection collectionName rest
                      (AList.update fieldName encryptedValue encryptedRecord))))"

text \<open>The outer loop of \<open>CreateRecords\<close> over the records.\<close>

fun encrypt_records ::
  "('db, 'pv) Vault \<Rightarrow> Collection \<Rightarrow> string \<Rightarrow> Record list \<Rightarrow> error + Record list" where
  "encrypt_records V collection collectionName [] = Inr []"
| "encrypt_records V collection collectionName (record # rest) =
     (case encrypt_fields V collection collectionName record [] of
        Inl err \<Rightarrow> Inl err
      | Inr encryptedRecord \<Rightarrow>
          (case encrypt_records V collection collectionName rest of
             Inl err \<Rightarrow> Inl err
           | Inr encryptedRecords \<Rightarrow> Inr (encryptedRecord # encryptedRecords)))"

definition CreateRecords ::
  "('db, 'pv) Vault \<Rightarrow> Principal \<Rightarrow> string \<Rightarrow> Record list \<Rightarrow> (string list, 'db) op" where
  "CreateRecords V prin collectionName records =
     bindE (authorize V \<lparr>Actor = prin, Action = PolicyActionWrite,
                         Resource = COLLECTIONS_PPATH @ ''/'' @ collectionName @ RECORDS_PPATH\<rparr>)
       (\<lambda>_. bindE (db_read (EvGetCollection collectionName) (db_GetCollection (Db V) collectionName))
          (\<lambda>collection.
             case encrypt_records V collection collectionName records of
               Inl err \<Rightarrow> failE err
             | Inr encryptedRecords \<Rightarrow>
                 db_write (EvCreateRecords collectionName encryptedRecords)
                   (db_CreateRecords (Db V) collectionName encryptedRecords)))"

text \<open>
  The authorization loops of \<open>GetRecords\<close>: for each record id, for each
  \<open>(field, format)\<close> of \<open>returnFormats\<close>, one request on
  \<open>/collections/<name>/records/<id>/<field>.<format>\<close>.
\<close>

text \<open>\<open>fmt.Sprintf("%s/%s%s/%s/%s.%s", COLLECTIONS_PPATH, collectionName, RECORDS_PPATH, recordID, field, format)\<close>\<close>

definition field_resource :: "string \<Rightarrow> string \<Rightarrow> string \<Rightarrow> string \<Rightarrow> string" where
  "field_resource collectionName recordID field format =
     COLLECTIONS_PPATH @ ''/'' @ collectionName @ RECORDS_PPATH @ ''/'' @ recordID
       @ ''/'' @ field @ ''.'' @ format"

fun authorize_formats ::
  "('db, 'pv) Vault \<Rightarrow> Principal \<Rightarrow> string \<Rightarrow> string \<Rightarrow> (string \<times> string) list \<Rightarrow> (unit, 'db) op" where
  "authorize_formats V prin collectionName recordID [] = returnE ()"
| "authorize_formats V prin collectionName recordID ((field, format) # rest) =
     bindE (authorize V \<lparr>Actor = prin, Action = PolicyActionRead,
              Resource = field_resource collectionName recordID field format\<rparr>)
       (\<lambda>_. authorize_formats V prin collectionName recordID rest)"

fun authorize_records ::
  "('db, 'pv) Vault \<Rightarrow> Principal \<Rightarrow> string \<Rightarrow> string list \<Rightarrow> (string \<times> string) list \<Rightarrow> (unit, 'db) op" where
  "authorize_records V prin collectionName [] returnFormats = returnE ()"
| "authorize_records V prin collectionName (recordID # rest) returnFormats =
     bindE (authorize_formats V prin collectionName recordID returnFormats)
       (\<lambda>_. authorize_records V prin collectionName rest returnFormats)"

text \<open>\<open>// Ensure requested fields exist on collection\<close>\<close>

fun fields_exist :: "Collection \<Rightarrow> string \<Rightarrow> (string \<times> string) list \<Rightarrow> error option" where
  "fields_exist col collectionName [] = None"
| "fields_exist col collectionName ((field, format) # rest) =
     (case map_of (col_Fields col) field of
        None \<Rightarrow> Some (NotFoundError (''Field '' @ field @ '' not found on collection '' @ collectionName) [])
      | Some _ \<Rightarrow> fields_exist col collectionName rest)"

text \<open>The inner loop of the read side: decrypt, rebuild the typed value, render it.\<close>

fun decrypt_fields ::
  "('db, 'pv) Vault \<Rightarrow> Collection \<Rightarrow> Record \<Rightarrow> (string \<times> string) list \<Rightarrow> Record \<Rightarrow> error + Record" where
  "decrypt_fields V col record [] decryptedRecord = Inr decryptedRecord"
| "decrypt_fields V col record ((field, format) # rest) decryptedRecord =
     (case Priv_Decrypt V (value_of record field) of
        (_, Some err) \<Rightarrow> Inl err
      | (decryptedValue, None) \<Rightarrow>
          (case GetPType V (fld_Type (field_of col field)) decryptedValue of
             Inl err \<Rightarrow> Inl err
           | Inr privValue \<Rightarrow>
               (case PType_Get V privValue format of
                  Inl err \<Rightarrow> Inl err
                | Inr rendered \<Rightarrow>
                    decrypt_fields V col record rest (AList.update field rendered decryptedRecord))))"

fun decrypt_records ::
  "('db, 'pv) Vault \<Rightarrow> Collection \<Rightarrow> (string \<times> string) list \<Rightarrow> (string \<times> Record) list \<Rightarrow>
   (string \<times> Record) list \<Rightarrow> error + (string \<times> Record) list" where
  "decrypt_records V col returnFormats [] records = Inr records"
| "decrypt_records V col returnFormats ((recordId, record) # rest) records =
     (case decrypt_fields V col record returnFormats [] of
        Inl err \<Rightarrow> Inl err
      | Inr decryptedRecord \<Rightarrow>
          decrypt_records V col returnFormats rest (AList.update recordId decryptedRecord records))"

definition GetRecords ::
  "('db, 'pv) Vault \<Rightarrow> Principal \<Rightarrow> string \<Rightarrow> string list \<Rightarrow> (string \<times> string) list \<Rightarrow>
   ((string \<times> Record) list, 'db) op" where
  "GetRecords V prin collectionName recordIDs returnFormats =
     (case recordIDs of
        [] \<Rightarrow> failE (ValueError ''recordIDs must not be empty'')
      | firstID # _ \<Rightarrow>
          bindE (authorize_records V prin collectionName recordIDs returnFormats)
            (\<lambda>_. bindE (db_read (EvGetCollection collectionName) (db_GetCollection (Db V) collectionName))
               (\<lambda>col. case fields_exist col collectionName returnFormats of
                    Some err \<Rightarrow> failE err
                  | None \<Rightarrow>
                      bindE (db_read (EvGetRecords collectionName recordIDs)
                               (db_GetRecords (Db V) collectionName recordIDs))
                        (\<lambda>encryptedRecords.
                           if length encryptedRecords = 0
                           then failE (NotFoundError ''record'' firstID)
                           else (case decrypt_records V col returnFormats encryptedRecords [] of
                                   Inl err \<Rightarrow> failE err
                                 | Inr records \<Rightarrow> returnE records)))))"

text \<open>\<open>val, _ := vault.Priv.Encrypt(value)\<close>: the error is dropped, the string is used.\<close>

definition GetRecordsFilter ::
  "('db, 'pv) Vault \<Rightarrow> Principal \<Rightarrow> string \<Rightarrow> string \<Rightarrow> string \<Rightarrow> (string \<times> string) list \<Rightarrow>
   ((string \<times> Record) list, 'db) op" where
  "GetRecordsFilter V prin collectionName fieldName value returnFormats =
     (let val = fst (Priv_Encrypt V value) in
      bindE (db_read (EvGetRecordsFilter collectionName fieldName val)
               (db_GetRecordsFilter (Db V) collectionName fieldName val))
        (\<lambda>recordIds. GetRecords V prin collectionName recordIds returnFormats))"

fun encrypt_patch :: "('db, 'pv) Vault \<Rightarrow> Record \<Rightarrow> Record \<Rightarrow> error + Record" where
  "encrypt_patch V [] encryptedRecord = Inr encryptedRecord"
| "encrypt_patch V ((recordFieldName, recordFieldValue) # rest) encryptedRecord =
     (case Priv_Encrypt V recordFieldValue of
        (_, Some err) \<Rightarrow> Inl err
      | (encryptedValue, None) \<Rightarrow>
          encrypt_patch V rest (AList.update recordFieldName encryptedValue encryptedRecord))"

definition UpdateRecord ::
  "('db, 'pv) Vault \<Rightarrow> Principal \<Rightarrow> string \<Rightarrow> string \<Rightarrow> Record \<Rightarrow> (unit, 'db) op" where
  "UpdateRecord V prin collectionName recordID record =
     bindE (authorize V \<lparr>Actor = prin, Action = PolicyActionWrite,
                         Resource = COLLECTIONS_PPATH @ ''/'' @ collectionName @ RECORDS_PPATH\<rparr>)
       (\<lambda>_. case encrypt_patch V record [] of
               Inl err \<Rightarrow> failE err
             | Inr encryptedRecord \<Rightarrow>
                 db_write (EvUpdateRecord collectionName recordID encryptedRecord)
                   (db_UpdateRecord (Db V) collectionName recordID encryptedRecord))"

definition DeleteRecord ::
  "('db, 'pv) Vault \<Rightarrow> Principal \<Rightarrow> string \<Rightarrow> string \<Rightarrow> (unit, 'db) op" where
  "DeleteRecord V prin collectionName recordID =
     bindE (authorize V \<lparr>Actor = prin, Action = PolicyActionWrite,
                         Resource = COLLECTIONS_PPATH @ ''/'' @ collectionName @ RECORDS_PPATH\<rparr>)
       (\<lambda>_. db_write (EvDeleteRecord collectionName recordID)
               (db_DeleteRecord (Db V) collectionName recordID))"

subsection \<open>Principals\<close>

definition GetPrincipal :: "('db, 'pv) Vault \<Rightarrow> Principal \<Rightarrow> string \<Rightarrow> (Principal, 'db) op" where
  "GetPrincipal V prin username =
     bindE (authorize V \<lparr>Actor = prin, Action = PolicyActionRead,
                         Resource = PRINCIPALS_PPATH @ ''/'' @ username @ ''/''\<rparr>)
       (\<lambda>_. db_read (EvGetPrincipal username) (db_GetPrincipal (Db V) username))"

definition CreatePrincipal :: "('db, 'pv) Vault \<Rightarrow> Principal \<Rightarrow> Principal \<Rightarrow> (unit, 'db) op" where
  "CreatePrincipal V actor prin =
     bindE (authorize V \<lparr>Actor = actor, Action = PolicyActionWrite, Resource = PRINCIPALS_PPATH\<rparr>)
       (\<lambda>_. bindE (mint V ''prin'')
          (\<lambda>newId.
             let hashedPassword = GenerateFromPassword V (prin_Password prin);
                 prin' = prin\<lparr>prin_Password := hashedPassword, prin_Id := newId,
                                         prin_CreatedAt := time_Now V\<rparr>
             in case Validate V (PPrincipal prin') of
                  Some err \<Rightarrow> failE err
                | None \<Rightarrow> db_write (EvCreatePrincipal prin')
                            (db_CreatePrincipal (Db V) prin')))"

definition DeletePrincipal :: "('db, 'pv) Vault \<Rightarrow> Principal \<Rightarrow> string \<Rightarrow> (unit, 'db) op" where
  "DeletePrincipal V prin username =
     bindE (authorize V \<lparr>Actor = prin, Action = PolicyActionWrite,
                         Resource = PRINCIPALS_PPATH @ ''/'' @ username @ ''/''\<rparr>)
       (\<lambda>_. db_write (EvDeletePrincipal username) (db_DeletePrincipal (Db V) username))"

subsection \<open>Policies\<close>

text \<open>\<open>// Ensure resource starts with a slash\<close>: the loop of \<open>CreatePolicy\<close>.\<close>

fun check_resources :: "string list \<Rightarrow> error option" where
  "check_resources [] = None"
| "check_resources (resource # rest) =
     (if \<not> HasPrefix resource ''/''
      then Some (ValueError (''resources must start with a slash - '' @ [CHR 0x27] @ resource
                             @ [CHR 0x27] @ '' is not a valid resource''))
      else check_resources rest)"

definition CreatePolicy :: "('db, 'pv) Vault \<Rightarrow> Principal \<Rightarrow> Policy \<Rightarrow> (unit, 'db) op" where
  "CreatePolicy V prin p =
     (case check_resources (pol_Resources p) of
        Some err \<Rightarrow> failE err
      | None \<Rightarrow>
          bindE (authorize V \<lparr>Actor = prin, Action = PolicyActionWrite, Resource = POLICIES_PPATH\<rparr>)
            (\<lambda>_. case Validate V (PPolicy p) of
                    Some err \<Rightarrow> failE err
                  | None \<Rightarrow>
                      bindE (mint V ''pol'')
                        (\<lambda>newId. db_write (EvCreatePolicy (p\<lparr>pol_Id := newId\<rparr>))
                                    (db_CreatePolicy (Db V) (p\<lparr>pol_Id := newId\<rparr>)))))"

definition GetPolicy :: "('db, 'pv) Vault \<Rightarrow> Principal \<Rightarrow> string \<Rightarrow> (Policy, 'db) op" where
  "GetPolicy V prin policyId =
     bindE (authorize V \<lparr>Actor = prin, Action = PolicyActionRead,
                         Resource = POLICIES_PPATH @ ''/'' @ policyId\<rparr>)
       (\<lambda>_. db_read (EvGetPolicy policyId) (db_GetPolicy (Db V) policyId))"

definition DeletePolicy :: "('db, 'pv) Vault \<Rightarrow> Principal \<Rightarrow> string \<Rightarrow> (unit, 'db) op" where
  "DeletePolicy V prin policyId =
     bindE (authorize V \<lparr>Actor = prin, Action = PolicyActionWrite,
                         Resource = POLICIES_PPATH @ ''/'' @ policyId\<rparr>)
       (\<lambda>_. db_write (EvDeletePolicy policyId) (db_DeletePolicy (Db V) policyId))"

definition GetPrincipalPolicies :: "('db, 'pv) Vault \<Rightarrow> Principal \<Rightarrow> (Policy list, 'db) op" where
  "GetPrincipalPolicies V prin =
     bindE (authorize V \<lparr>Actor = prin, Action = PolicyActionRead, Resource = POLICIES_PPATH\<rparr>)
       (\<lambda>_. db_read (EvGetPolicies (prin_Policies prin))
               (db_GetPolicies (Db V) (prin_Policies prin)))"

subsection \<open>Tokens\<close>

text \<open>
  \<open>for recordId := range records { ...; return tokenId, nil }\<close> runs its body once, on
  the first key of the map, and falls through to the \<open>NotFoundError\<close> on an empty map.
\<close>

definition CreateToken ::
  "('db, 'pv) Vault \<Rightarrow> Principal \<Rightarrow> string \<Rightarrow> string \<Rightarrow> string \<Rightarrow> string \<Rightarrow> (string, 'db) op" where
  "CreateToken V prin collectionName recordId fieldName returnFormat =
     bindE (GetRecords V prin collectionName [recordId] [(fieldName, returnFormat)])
       (\<lambda>records. bindE (mint V ''tok'')
          (\<lambda>tokenId.
             case records of
               (recordId', _) # _ \<Rightarrow>
                 bindE (db_write (EvCreateToken tokenId
                           (collectionName @ ''/'' @ recordId' @ ''/'' @ fieldName @ ''/'' @ returnFormat))
                         (db_CreateToken (Db V) tokenId
                           (collectionName @ ''/'' @ recordId' @ ''/'' @ fieldName @ ''/'' @ returnFormat)))
                   (\<lambda>_. returnE tokenId)
             | [] \<Rightarrow> failE (NotFoundError ''record'' recordId)))"

definition DeleteToken :: "('db, 'pv) Vault \<Rightarrow> string \<Rightarrow> (unit, 'db) op" where
  "DeleteToken V tokenId = db_write (EvDeleteToken tokenId) (db_DeleteToken (Db V) tokenId)"

definition GetTokenValue :: "('db, 'pv) Vault \<Rightarrow> Principal \<Rightarrow> string \<Rightarrow> (Record, 'db) op" where
  "GetTokenValue V prin tokenId =
     bindE (db_read (EvGetTokenValue tokenId) (db_GetTokenValue (Db V) tokenId))
       (\<lambda>recordAndFieldStr.
          case Split recordAndFieldStr CHR ''/'' of
            [collectionName, recordId, fieldName, returnFormat] \<Rightarrow>
              bindE (GetRecords V prin collectionName [recordId] [(fieldName, returnFormat)])
                (\<lambda>records. case records of
                     (_, record) # _ \<Rightarrow> returnE record
                   | [] \<Rightarrow> failE (NotFoundError ''record'' recordId))
          | _ \<Rightarrow> failE (ErrorString (''invalid token value: '' @ recordAndFieldStr
                                     @ '' stored in token: '' @ tokenId)))"

subsection \<open>Subjects\<close>

definition CreateSubject :: "('db, 'pv) Vault \<Rightarrow> Principal \<Rightarrow> Subject \<Rightarrow> (unit, 'db) op" where
  "CreateSubject V actor subject =
     bindE (authorize V \<lparr>Actor = actor, Action = PolicyActionWrite, Resource = SUBJECTS_PPATH\<rparr>)
       (\<lambda>_. bindE (mint V ''sub'')
          (\<lambda>newId.
             let subject' = subject\<lparr>sub_Id := newId, sub_CreatedAt := time_Now V\<rparr>
             in case Validate V (PSubject subject') of
                  Some err \<Rightarrow> failE err
                | None \<Rightarrow> db_write (EvCreateSubject subject') (db_CreateSubject (Db V) subject')))"

definition GetSubject :: "('db, 'pv) Vault \<Rightarrow> Principal \<Rightarrow> string \<Rightarrow> (Subject, 'db) op" where
  "GetSubject V actor subjectId =
     bindE (authorize V \<lparr>Actor = actor, Action = PolicyActionRead,
                         Resource = SUBJECTS_PPATH @ ''/'' @ subjectId\<rparr>)
       (\<lambda>_. db_read (EvGetSubject subjectId) (db_GetSubject (Db V) subjectId))"

definition DeleteSubject :: "('db, 'pv) Vault \<Rightarrow> Principal \<Rightarrow> string \<Rightarrow> (unit, 'db) op" where
  "DeleteSubject V actor subjectId =
     bindE (authorize V \<lparr>Actor = actor, Action = PolicyActionWrite,
                         Resource = SUBJECTS_PPATH @ ''/'' @ subjectId\<rparr>)
       (\<lambda>_. db_write (EvDeleteSubject subjectId) (db_DeleteSubject (Db V) subjectId))"

section \<open>A storage backend and collaborators to run the orchestrator on\<close>

text \<open>
  Modelled from the spec: the storage backend behind \<open>VaultDB\<close> is not among the source
  files. Section 4.7: collections by name, records created in a batch (ids returned in
  input order), fetched by ids, patched per field and deleted one at a time, an exact-match
  lookup on indexed fields only (\<open>IndexError\<close> otherwise), principals by access key,
  policies by id with a get-many that returns the policies it finds, tokens and subjects
  by id, not-found and conflict as distinct typed errors. A get-many of records returns
  the records it finds: the orchestrator's test \<open>len(encryptedRecords) == 0\<close> is for a
  result without an error and without records.
\<close>

record mem_db =
  m_collections :: "(string \<times> Collection) list"
  m_records :: "((string \<times> string) \<times> Record) list"
  m_principals :: "(string \<times> Principal) list"
  m_policies :: "(string \<times> Policy) list"
  m_tokens :: "(string \<times> string) list"
  m_subjects :: "(string \<times> Subject) list"
  m_next :: nat

definition mem_empty :: mem_db where
  "mem_empty = \<lparr>m_collections = [], m_records = [], m_principals = [], m_policies = [],
     m_tokens = [], m_subjects = [], m_next = 0\<rparr>"

definition mem_get :: "string \<Rightarrow> ('k \<times> 'v) list \<Rightarrow> 'k \<Rightarrow> string \<Rightarrow> error + 'v" where
  "mem_get kind table k shown =
     (case map_of table k of None \<Rightarrow> Inl (NotFoundError kind shown) | Some v \<Rightarrow> Inr v)"

definition mem_GetCollection :: "string \<Rightarrow> mem_db \<Rightarrow> error + Collection" where
  "mem_GetCollection name s = mem_get ''collection'' (m_collections s) name name"

definition mem_GetCollections :: "mem_db \<Rightarrow> error + string list" where
  "mem_GetCollections s = Inr (map fst (m_collections s))"

definition mem_CreateCollection :: "Collection \<Rightarrow> mem_db \<Rightarrow> (error + unit) \<times> mem_db" where
  "mem_CreateCollection col s =
     (case map_of (m_collections s) (col_Name col) of
        Some _ \<Rightarrow> (Inl ErrConflict, s)
      | None \<Rightarrow> (Inr (), s\<lparr>m_collections := m_collections s @ [(col_Name col, col)]\<rparr>))"

definition mem_DeleteCollection :: "string \<Rightarrow> mem_db \<Rightarrow> (error + unit) \<times> mem_db" where
  "mem_DeleteCollection name s =
     (case map_of (m_collections s) name of
        None \<Rightarrow> (Inl (NotFoundError ''collection'' name), s)
      | Some _ \<Rightarrow> (Inr (), s\<lparr>m_collections := AList.delete name (m_collections s)\<rparr>))"

fun mem_insert_records ::
  "string \<Rightarrow> nat \<Rightarrow> Record list \<Rightarrow> ((string \<times> string) \<times> Record) list \<Rightarrow>
   string list \<times> ((string \<times> string) \<times> Record) list" where
  "mem_insert_records c n [] table = ([], table)"
| "mem_insert_records c n (r # rs) table =
     (case mem_insert_records c (Suc n) rs (AList.update (c, ''rec_'' @ replicate n CHR ''1'') r table) of
        (ids, table') \<Rightarrow> ((''rec_'' @ replicate n CHR ''1'') # ids, table'))"

definition mem_CreateRecords :: "string \<Rightarrow> Record list \<Rightarrow> mem_db \<Rightarrow> (error + string list) \<times> mem_db" where
  "mem_CreateRecords c records s =
     (case map_of (m_collections s) c of
        None \<Rightarrow> (Inl (NotFoundError ''collection'' c), s)
      | Some _ \<Rightarrow>
          (case mem_insert_records c (m_next s) records (m_records s) of
             (ids, table) \<Rightarrow> (Inr ids, s\<lparr>m_records := table, m_next := m_next s + length records\<rparr>)))"

fun mem_find_records ::
  "((string \<times> string) \<times> Record) list \<Rightarrow> string \<Rightarrow> string list \<Rightarrow> (string \<times> Record) list" where
  "mem_find_records table c [] = []"
| "mem_find_records table c (i # ids) =
     (case map_of table (c, i) of
        None \<Rightarrow> mem_find_records table c ids
      | Some r \<Rightarrow> (i, r) # mem_find_records table c ids)"

definition mem_GetRecords :: "string \<Rightarrow> string list \<Rightarrow> mem_db \<Rightarrow> error + (string \<times> Record) list" where
  "mem_GetRecords c ids s = Inr (mem_find_records (m_records s) c ids)"

definition mem_GetRecordsFilter :: "string \<Rightarrow> string \<Rightarrow> string \<Rightarrow> mem_db \<Rightarrow> error + string list" where
  "mem_GetRecordsFilter c fieldName v s =
     (case map_of (m_collections s) c of
        None \<Rightarrow> Inl (NotFoundError ''collection'' c)
      | Some col \<Rightarrow>
          (case map_of (col_Fields col) fieldName of
             None \<Rightarrow> Inl ErrIndexError
           | Some f \<Rightarrow>
               if \<not> fld_IsIndexed f then Inl ErrIndexError
               else Inr (map (\<lambda>(k, r). snd k)
                          (filter (\<lambda>(k, r). fst k = c \<and> map_of r fieldName = Some v) (m_records s)))))"

fun mem_patch :: "Record \<Rightarrow> Record \<Rightarrow> Record" where
  "mem_patch [] r = r"
| "mem_patch ((f, v) # rest) r = mem_patch rest (AList.update f v r)"

definition mem_UpdateRecord :: "string \<Rightarrow> string \<Rightarrow> Record \<Rightarrow> mem_db \<Rightarrow> (error + unit) \<times> mem_db" where
  "mem_UpdateRecord c i patch s =
     (case map_of (m_records s) (c, i) of
        None \<Rightarrow> (Inl (NotFoundError ''record'' i), s)
      | Some r \<Rightarrow> (Inr (), s\<lparr>m_records := AList.update (c, i) (mem_patch patch r) (m_records s)\<rparr>))"

definition mem_DeleteRecord :: "string \<Rightarrow> string \<Rightarrow> mem_db \<Rightarrow> (error + unit) \<times> mem_db" where
  "mem_DeleteRecord c i s =
     (case map_of (m_records s) (c, i) of
        None \<Rightarrow> (Inl (NotFoundError ''record'' i), s)
      | Some _ \<Rightarrow> (Inr (), s\<lparr>m_records := AList.delete (c, i) (m_records s)\<rparr>))"

definition mem_GetPrincipal :: "string \<Rightarrow> mem_db \<Rightarrow> error + Principal" where
  "mem_GetPrincipal username s = mem_get ''principal'' (m_principals s) username username"

definition mem_CreatePrincipal :: "Principal \<Rightarrow> mem_db \<Rightarrow> (error + unit) \<times> mem_db" where
  "mem_CreatePrincipal p s =
     (case map_of (m_principals s) (prin_Username p) of
        Some _ \<Rightarrow> (Inl ErrConflict, s)
      | None \<Rightarrow> (Inr (), s\<lparr>m_principals := m_principals s @ [(prin_Username p, p)]\<rparr>))"

definition mem_DeletePrincipal :: "string \<Rightarrow> mem_db \<Rightarrow> (error + unit) \<times> mem_db" where
  "mem_DeletePrincipal username s =
     (case map_of (m_principals s) username of
        None \<Rightarrow> (Inl (NotFoundError ''principal'' username), s)
      | Some _ \<Rightarrow> (Inr (), s\<lparr>m_principals := AList.delete username (m_principals s)\<rparr>))"

definition mem_GetPolicy :: "string \<Rightarrow> mem_db \<Rightarrow> error + Policy" where
  "mem_GetPolicy policyId s = mem_get ''policy'' (m_policies s) policyId policyId"

fun mem_find_policies :: "(string \<times> Policy) list \<Rightarrow> string list \<Rightarrow> Policy list" where
  "mem_find_policies table [] = []"
| "mem_find_policies table (i # ids) =
     (case map_of table i of
        None \<Rightarrow> mem_find_policies table ids
      | Some p \<Rightarrow> p # mem_find_policies table ids)"

definition mem_GetPolicies :: "string list \<Rightarrow> mem_db \<Rightarrow> error + Policy list" where
  "mem_GetPolicies ids s = Inr (mem_find_policies (m_policies s) ids)"

definition mem_CreatePolicy :: "Policy \<Rightarrow> mem_db \<Rightarrow> (error + unit) \<times> mem_db" where
  "mem_CreatePolicy p s =
     (case map_of (m_policies s) (pol_Id p) of
        Some _ \<Rightarrow> (Inl ErrConflict, s)
      | None \<Rightarrow> (Inr (), s\<lparr>m_policies := m_policies s @ [(pol_Id p, p)]\<rparr>))"

definition mem_DeletePolicy :: "string \<Rightarrow> mem_db \<Rightarrow> (error + unit) \<times> mem_db" where
  "mem_DeletePolicy policyId s =
     (case map_of (m_policies s) policyId of
        None \<Rightarrow> (Inl (NotFoundError ''policy'' policyId), s)
      | Some _ \<Rightarrow> (Inr (), s\<lparr>m_policies := AList.delete policyId (m_policies s)\<rparr>))"

definition mem_CreateToken :: "string \<Rightarrow> string \<Rightarrow> mem_db \<Rightarrow> (error + unit) \<times> mem_db" where
  "mem_CreateToken tokenId v s = (Inr (), s\<lparr>m_tokens := AList.update tokenId v (m_tokens s)\<rparr>)"

definition mem_DeleteToken :: "string \<Rightarrow> mem_db \<Rightarrow> (error + unit) \<times> mem_db" where
  "mem_DeleteToken tokenId s =
     (case map_of (m_tokens s) tokenId of
        None \<Rightarrow> (Inl (NotFoundError ''token'' tokenId), s)
      | Some _ \<Rightarrow> (Inr (), s\<lparr>m_tokens := AList.delete tokenId (m_tokens s)\<rparr>))"

definition mem_GetTokenValue :: "string \<Rightarrow> mem_db \<Rightarrow> error + string" where
  "mem_GetTokenValue tokenId s = mem_get ''token'' (m_tokens s) tokenId tokenId"

definition mem_CreateSubject :: "Subject \<Rightarrow> mem_db \<Rightarrow> (error + unit) \<times> mem_db" where
  "mem_CreateSubject sub s =
     (case map_of (m_subjects s) (sub_Id sub) of
        Some _ \<Rightarrow> (Inl ErrConflict, s)
      | None \<Rightarrow> (Inr (), s\<lparr>m_subjects := m_subjects s @ [(sub_Id sub, sub)]\<rparr>))"

definition mem_GetSubject :: "string \<Rightarrow> mem_db \<Rightarrow> error + Subject" where
  "mem_GetSubject subjectId s = mem_get ''subject'' (m_subjects s) subjectId subjectId"

definition mem_DeleteSubject :: "string \<Rightarrow> mem_db \<Rightarrow> (error + unit) \<times> mem_db" where
  "mem_DeleteSubject subjectId s =
     (case map_of (m_subjects s) subjectId of
        None \<Rightarrow> (Inl (NotFoundError ''subject'' subjectId), s)
      | Some _ \<Rightarrow> (Inr (), s\<lparr>m_subjects := AList.delete subjectId (m_subjects s)\<rparr>))"

definition mem_Flush :: "mem_db \<Rightarrow> (error + unit) \<times> mem_db" where
  "mem_Flush s = (Inr (), mem_empty)"

definition mem_store :: "mem_db VaultDB" where
  "mem_store = \<lparr>
     db_GetCollection = mem_GetCollection,
     db_GetCollections = mem_GetCollections,
     db_CreateCollection = mem_CreateCollection,
     db_DeleteCollection = mem_DeleteCollection,
     db_CreateRecords = mem_CreateRecords,
     db_GetRecords = mem_GetRecords,
     db_GetRecordsFilter = mem_GetRecordsFilter,
     db_UpdateRecord = mem_UpdateRecord,
     db_DeleteRecord = mem_DeleteRecord,
     db_GetPrincipal = mem_GetPrincipal,
     db_CreatePrincipal = mem_CreatePrincipal,
     db_DeletePrincipal = mem_DeletePrincipal,
     db_GetPolicy = mem_GetPolicy,
     db_GetPolicies = mem_GetPolicies,
     db_CreatePolicy = mem_CreatePolicy,
     db_DeletePolicy = mem_DeletePolicy,
     db_CreateToken = mem_CreateToken,
     db_DeleteToken = mem_DeleteToken,
     db_GetTokenValue = mem_GetTokenValue,
     db_CreateSubject = mem_CreateSubject,
     db_GetSubject = mem_GetSubject,
     db_DeleteSubject = mem_DeleteSubject,
     db_Flush = mem_Flush\<rparr>"

text \<open>
  Modelled from the spec: the privatiser, the PType engine and the identifier mint are not
  among the source files. Section 4.2: encryption is deterministic and decryption undoes
  it. Section 4.1: the type \<open>string\<close> with the projections \<open>plain\<close> (the value itself)
  and \<open>masked\<close> (every character replaced by \<open>*\<close>); other projections are rejected.
  Section 4.3: identifiers are \<open>{prefix}_{unique}\<close>. The password hash stands for bcrypt.
\<close>

definition test_Encrypt :: "string \<Rightarrow> string \<times> error option" where
  "test_Encrypt s = (CHR ''#'' # s, None)"

definition test_Decrypt :: "string \<Rightarrow> string \<times> error option" where
  "test_Decrypt s =
     (case s of
        [] \<Rightarrow> ([], Some (ErrorString ''cipher: message authentication failed''))
      | c # rest \<Rightarrow>
          if c = CHR ''#'' then (rest, None)
          else ([], Some (ErrorString ''cipher: message authentication failed'')))"

definition test_GetPType :: "string \<Rightarrow> string \<Rightarrow> error + string" where
  "test_GetPType typeName v =
     (if typeName = ''string'' then Inr v else Inl (ValueError (''unknown type '' @ typeName)))"

definition test_PType_Get :: "string \<Rightarrow> string \<Rightarrow> error + string" where
  "test_PType_Get v format =
     (if format = ''plain'' then Inr v
      else if format = ''masked'' then Inr (replicate (length v) CHR ''*'')
      else Inl (ValueError (''unknown format '' @ format)))"

definition test_vault :: "(mem_db, string) Vault" where
  "test_vault = \<lparr>
     Db = mem_store,
     Priv_Encrypt = test_Encrypt,
     Priv_Decrypt = test_Decrypt,
     Validator = Some (\<lambda>_. StructOk),
     GetPType = test_GetPType,
     PType_Get = test_PType_Get,
     GenerateId = (\<lambda>prefix n. prefix @ ''_'' @ replicate n CHR ''1''),
     GenerateFromPassword = (\<lambda>password. CHR ''$'' # password),
     CompareHashAndPassword = (\<lambda>hash password. hash = CHR ''$'' # password),
     time_Now = ''2023-01-01T00:00:00Z''\<rparr>"

text \<open>A privatiser whose \<open>Encrypt\<close> always fails.\<close>

definition broken_vault :: "(mem_db, string) Vault" where
  "broken_vault = test_vault\<lparr>Priv_Encrypt := (\<lambda>_. ([], Some (ErrorString ''encrypt failed'')))\<rparr>"

text \<open>
  The fixtures: an administrator allowed everything under \<open>/\<close>, a principal without
  policies, a \<open>customers\<close> collection with an indexed \<open>first_name\<close> and one stored record.
\<close>

definition admin_policy :: Policy where
  "admin_policy = \<lparr>pol_Id = ''admin'', pol_Name = ''admin'', pol_Description = [],
     pol_Effect = EffectAllow, pol_Actions = [PolicyActionRead, PolicyActionWrite],
     pol_Resources = [''/*''], pol_CreatedAt = [], pol_UpdatedAt = []\<rparr>"

definition admin :: Principal where
  "admin = \<lparr>prin_Id = ''prin_admin'', prin_Username = ''admin'', prin_Password = ''$admin'',
     prin_Description = [], prin_CreatedAt = [], prin_UpdatedAt = [], prin_Policies = [''admin'']\<rparr>"

definition nobody :: Principal where
  "nobody = \<lparr>prin_Id = ''prin_nobody'', prin_Username = ''nobody'', prin_Password = ''$nobody'',
     prin_Description = [], prin_CreatedAt = [], prin_UpdatedAt = [], prin_Policies = []\<rparr>"

definition customers :: Collection where
  "customers = \<lparr>col_Id = ''col_1'', col_Name = ''customers'',
     col_Fields = [(''first_name'', \<lparr>fld_Type = ''string'', fld_IsIndexed = True\<rparr>)],
     col_CreatedAt = [], col_UpdatedAt = [], col_Description = []\<rparr>"

definition seeded_db :: mem_db where
  "seeded_db = \<lparr>m_collections = [(''customers'', customers)],
     m_records = [((''customers'', ''rec_''), [(''first_name'', ''#John'')])],
     m_principals = [(''admin'', admin)],
     m_policies = [(''admin'', admin_policy)],
     m_tokens = [], m_subjects = [], m_next = 1\<rparr>"

definition world_of :: "'db \<Rightarrow> 'db world" where
  "world_of s = \<lparr>store = s, trace = [], minted = 0\<rparr>"

text \<open>A collection whose one field has a \<open>/\<close> in its name, with one stored record.\<close>

definition slash_collection :: Collection where
  "slash_collection = \<lparr>col_Id = ''col_2'', col_Name = ''cards'',
     col_Fields = [(''a/b'', \<lparr>fld_Type = ''string'', fld_IsIndexed = False\<rparr>)],
     col_CreatedAt = [], col_UpdatedAt = [], col_Description = []\<rparr>"

definition slash_db :: mem_db where
  "slash_db = seeded_db\<lparr>m_collections := [(''cards'', slash_collection)],
     m_records := [((''cards'', ''rec_''), [(''a/b'', ''#4242'')])]\<rparr>"

text \<open>
  A clerk whose one policy allows reading the fields of the record \<open>rec_\<close> of
  \<open>customers\<close> and nothing else.
\<close>

definition clerk_policy :: Policy where
  "clerk_policy = \<lparr>pol_Id = ''clerk'', pol_Name = ''clerk'', pol_Description = [],
     pol_Effect = EffectAllow, pol_Actions = [PolicyActionRead],
     pol_Resources = [''/collections/customers/records/rec_/*''], pol_CreatedAt = [],
     pol_UpdatedAt = []\<rparr>"

definition clerk :: Principal where
  "clerk = \<lparr>prin_Id = ''prin_clerk'', prin_Username = ''clerk'', prin_Password = ''$clerk'',
     prin_Description = [], prin_CreatedAt = [], prin_UpdatedAt = [], prin_Policies = [''clerk'']\<rparr>"

definition clerk_db :: mem_db where
  "clerk_db = seeded_db\<lparr>m_policies := [(''admin'', admin_policy), (''clerk'', clerk_policy)]\<rparr>"

definition subject0 :: Subject where
  "subject0 = \<lparr>sub_Id = [], sub_Eid = ''external-1'', sub_CreatedAt = [], sub_UpdatedAt = [],
     sub_Metadata = []\<rparr>"

section \<open>Notions the properties are stated with\<close>

text \<open>
  A lookup miss: the \<open>NotFoundError\<close> the orchestrator builds, or the sentinel
  \<open>ErrNotFound\<close> of the errors file.
\<close>

fun is_NotFound :: "error \<Rightarrow> bool" where
  "is_NotFound (NotFoundError name v) = True"
| "is_NotFound e = (e = ErrNotFound)"

text \<open>
  A principal is denied a request when the policy engine answers no (and not an error).
  A refused operation returns \<open>ForbiddenError\<close> with the request, and the one call it
  has made is the policy engine's fetch of the principal's policies.
\<close>

definition denied :: "('db, 'pv) Vault \<Rightarrow> Request \<Rightarrow> 'db world \<Rightarrow> bool" where
  "denied V request w = (fst (ValidateAction V request w) = Inr False)"

definition refused :: "Request \<Rightarrow> 'db world \<Rightarrow> (error + 'a) \<times> 'db world" where
  "refused request w =
     (Inl (ForbiddenError request),
      w\<lparr>trace := trace w @ [EvGetPolicies (prin_Policies (Actor request))]\<rparr>)"

text \<open>
  What the round trip needs of the collaborators. Section 4.7: the records given to
  \<open>CreateRecords\<close> are the records \<open>GetRecords\<close> returns under the ids minted for them,
  and creating records leaves the collections as they are. Section 3: decryption undoes
  encryption. Section 8: rendering a parsed value in the projection \<open>plain\<close> gives the raw
  value back.
\<close>

definition storage_keeps_records :: "'db VaultDB \<Rightarrow> bool" where
  "storage_keeps_records D =
     (\<forall>s s' c er rid. db_CreateRecords D c [er] s = (Inr [rid], s') \<longrightarrow>
        (\<exists>er'. db_GetRecords D c [rid] s' = Inr [(rid, er')] \<and> map_of er' = map_of er)
        \<and> db_GetCollection D c s' = db_GetCollection D c s)"

definition privatiser_inverts :: "('db, 'pv) Vault \<Rightarrow> bool" where
  "privatiser_inverts V = (\<forall>v c. Priv_Encrypt V v = (c, None) \<longrightarrow> Priv_Decrypt V c = (v, None))"

definition plain_renders_raw :: "('db, 'pv) Vault \<Rightarrow> bool" where
  "plain_renders_raw V = (\<forall>t v pv. GetPType V t v = Inr pv \<longrightarrow> PType_Get V pv ''plain'' = Inr v)"

section \<open>Properties\<close>

subsection \<open>Running the helpers\<close>

lemmas op_defs = returnE_def failE_def bindE_def db_read_def db_write_def mint_def Logger_Error_def

lemmas mem_defs = mem_empty_def mem_get_def mem_GetCollection_def mem_GetCollections_def
  mem_CreateCollection_def mem_DeleteCollection_def mem_CreateRecords_def mem_GetRecords_def
  mem_GetRecordsFilter_def mem_UpdateRecord_def mem_DeleteRecord_def mem_GetPrincipal_def
  mem_CreatePrincipal_def mem_DeletePrincipal_def mem_GetPolicy_def mem_GetPolicies_def
  mem_CreatePolicy_def mem_DeletePolicy_def mem_CreateToken_def mem_DeleteToken_def
  mem_GetTokenValue_def mem_CreateSubject_def mem_GetSubject_def mem_DeleteSubject_def
  mem_Flush_def mem_store_def

lemmas test_defs = test_vault_def broken_vault_def world_of_def seeded_db_def nobody_def admin_def
  admin_policy_def customers_def test_Encrypt_def test_Decrypt_def test_GetPType_def
  test_PType_Get_def slash_db_def slash_collection_def subject0_def
  clerk_policy_def clerk_def clerk_db_def

lemmas fixture_defs = mem_defs test_defs

lemmas const_defs = PolicyActionRead_def PolicyActionWrite_def EffectAllow_def EffectDeny_def
  COLLECTIONS_PPATH_def RECORDS_PPATH_def PRINCIPALS_PPATH_def POLICIES_PPATH_def SUBJECTS_PPATH_def
  ErrNotFound_def ErrConflict_def ErrIndexError_def zero_Field_def

lemmas engine_defs = EvaluateRequest_def policy_matches_def match_resource_def field_resource_def
  value_of_def field_of_def HasPrefix_def Validate_def

lemmas run_defs = op_defs GetRecords_def authorize_def ValidateAction_def engine_defs const_defs
  mem_defs test_defs

lemma ValidateAction_run:
  "ValidateAction V request w =
     ((case db_GetPolicies (Db V) (prin_Policies (Actor request)) (store w) of
         Inl e \<Rightarrow> Inl e
       | Inr policies \<Rightarrow> Inr (EvaluateRequest request policies)),
      w\<lparr>trace := trace w @ [EvGetPolicies (prin_Policies (Actor request))]\<rparr>)"
  by (simp add: ValidateAction_def op_defs split: sum.splits)

lemma authorize_run:
  "authorize V request w =
     ((case db_GetPolicies (Db V) (prin_Policies (Actor request)) (store w) of
         Inl e \<Rightarrow> Inl e
       | Inr policies \<Rightarrow>
           if EvaluateRequest request policies then Inr () else Inl (ForbiddenError request)),
      w\<lparr>trace := trace w @ [EvGetPolicies (prin_Policies (Actor request))]\<rparr>)"
  by (simp add: authorize_def ValidateAction_run op_defs split: sum.splits)

lemma collect_matched_set:
  "set (collect_matched request policies) = {p \<in> set policies. policy_matches request p}"
  by (induction policies) auto

lemma GetRecords_run:
  "GetRecords V prin c (rid # rest) fmts w =
     (case authorize_records V prin c (rid # rest) fmts w of
        (Inl e, w1) \<Rightarrow> (Inl e, w1)
      | (Inr u, w1) \<Rightarrow>
          (case db_GetCollection (Db V) c (store w1) of
             Inl e \<Rightarrow> (Inl e, w1\<lparr>trace := trace w1 @ [EvGetCollection c]\<rparr>)
           | Inr col \<Rightarrow>
               (case fields_exist col c fmts of
                  Some e \<Rightarrow> (Inl e, w1\<lparr>trace := trace w1 @ [EvGetCollection c]\<rparr>)
                | None \<Rightarrow>
                    ((case db_GetRecords (Db V) c (rid # rest) (store w1) of
                        Inl e \<Rightarrow> Inl e
                      | Inr encryptedRecords \<Rightarrow>
                          if encryptedRecords = [] then Inl (NotFoundError ''record'' rid)
                          else decrypt_records V col fmts encryptedRecords []),
                     w1\<lparr>trace := trace w1 @ [EvGetCollection c, EvGetRecords c (rid # rest)]\<rparr>))))"
  by (simp add: GetRecords_def op_defs split: prod.splits sum.splits option.splits)

lemma decrypt_records_nonempty:
  "decrypt_records V col fmts ers acc = Inr recs \<Longrightarrow> ers \<noteq> [] \<or> acc \<noteq> [] \<Longrightarrow> recs \<noteq> []"
proof (induction ers arbitrary: acc)
  case Nil
  then show ?case by simp
next
  case (Cons a ers)
  obtain i r where a: "a = (i, r)" by (cases a)
  from Cons.prems(1) a obtain d where d: "decrypt_fields V col r fmts [] = Inr d"
    and rest: "decrypt_records V col fmts ers (AList.update i d acc) = Inr recs"
    by (auto split: sum.splits)
  have "AList.update i d acc \<noteq> []" by (cases acc) (auto)
  with Cons.IH [OF rest] show ?case by simp
qed

lemma GetRecords_result_nonempty:
  assumes "GetRecords V prin c ids fmts w = (Inr recs, w')"
  shows "recs \<noteq> []"
proof (cases ids)
  case Nil
  with assms show ?thesis by (simp add: GetRecords_def failE_def)
next
  case (Cons rid rest)
  with assms show ?thesis
    by (auto simp: GetRecords_run split: prod.splits sum.splits option.splits if_splits
        dest: decrypt_records_nonempty)
qed



subsection \<open>The policy decision\<close>

text \<open>
  C3. For every request and every list of policies attached to the principal, the decision
  is deny if some policy matching both the resource and the action has effect deny,
  else allow if some matching policy has effect allow, else deny; with no policy at all
  the decision is deny. \<open>ValidateAction\<close> returns that decision on the policies the
  storage returns for the principal's policy ids, and the storage's error if the fetch
  fails.
\<close>

theorem policy_decision:
  "EvaluateRequest request policies =
     (\<not> (\<exists>p \<in> set policies. policy_matches request p \<and> pol_Effect p = EffectDeny)
      \<and> (\<exists>p \<in> set policies. policy_matches request p \<and> pol_Effect p = EffectAllow))
   \<and> EvaluateRequest request [] = False
   \<and> fst (ValidateAction V request w) =
       (case db_GetPolicies (Db V) (prin_Policies (Actor request)) (store w) of
          Inl e \<Rightarrow> Inl e
        | Inr attached \<Rightarrow>
            Inr (\<not> (\<exists>p \<in> set attached. policy_matches request p \<and> pol_Effect p = EffectDeny)
                 \<and> (\<exists>p \<in> set attached. policy_matches request p \<and> pol_Effect p = EffectAllow)))"
proof -
  have decide: "EvaluateRequest r ps =
     (\<not> (\<exists>p \<in> set ps. policy_matches r p \<and> pol_Effect p = EffectDeny)
      \<and> (\<exists>p \<in> set ps. policy_matches r p \<and> pol_Effect p = EffectAllow))" for r ps
    by (auto simp: EvaluateRequest_def Let_def list_ex_iff collect_matched_set)
  have none: "EvaluateRequest request [] = False"
    by (simp add: EvaluateRequest_def)
  have run: "fst (ValidateAction V request w) =
       (case db_GetPolicies (Db V) (prin_Policies (Actor request)) (store w) of
          Inl e \<Rightarrow> Inl e
        | Inr attached \<Rightarrow>
            Inr (\<not> (\<exists>p \<in> set attached. policy_matches request p \<and> pol_Effect p = EffectDeny)
                 \<and> (\<exists>p \<in> set attached. policy_matches request p \<and> pol_Effect p = EffectAllow)))"
    by (simp add: ValidateAction_run decide split: sum.splits)
  from decide none run show ?thesis by blast
qed

text \<open>
  The principal without policies is denied a read of \<open>/collections\<close>; the administrator's
  policy allows it.
\<close>

theorem policy_decision_witness:
  "prin_Policies nobody = []
   \<and> db_GetPolicies (Db test_vault) [] seeded_db = Inr []
   \<and> fst (ValidateAction test_vault
        \<lparr>Actor = nobody, Action = PolicyActionRead, Resource = ''/collections''\<rparr>
        (world_of seeded_db)) = Inr False
   \<and> EvaluateRequest \<lparr>Actor = admin, Action = PolicyActionRead, Resource = ''/collections''\<rparr>
        [admin_policy] = True"
  using policy_decision [of "\<lparr>Actor = nobody, Action = PolicyActionRead, Resource = ''/collections''\<rparr>"
      "[]" test_vault "world_of seeded_db"]
    policy_decision [of "\<lparr>Actor = admin, Action = PolicyActionRead, Resource = ''/collections''\<rparr>"
      "[admin_policy]" test_vault "world_of seeded_db"]
  by (simp add: fixture_defs policy_matches_def match_resource_def PolicyActionRead_def
      PolicyActionWrite_def EffectAllow_def EffectDeny_def)

subsection \<open>Login\<close>

text \<open>
  C5, as amended. For every non-empty access key and non-empty secret on which \<open>Login\<close>
  fails (unknown access key or any other storage failure, a stored principal without name
  or hash, a wrong secret), the error returned is the same \<open>ForbiddenError\<close> with an empty
  request. Every call with an empty access key or an empty secret is answered by the
  \<open>ValueError\<close> of the guard, before the storage is asked: the world is returned as it
  was.
\<close>

theorem Login_failure_is_Forbidden:
  "(username \<noteq> [] \<and> password \<noteq> [] \<longrightarrow>
      (\<forall>e. fst (Login V username password w) = Inl e \<longrightarrow> e = ForbiddenError zero_Request))
   \<and> (username = [] \<or> password = [] \<longrightarrow>
      Login V username password w
        = (Inl (ValueError ''username and password must not be empty''), w))"
proof (intro conjI impI allI)
  fix e
  assume "username \<noteq> [] \<and> password \<noteq> []" and "fst (Login V username password w) = Inl e"
  then show "e = ForbiddenError zero_Request"
    by (auto simp: Login_def op_defs split: sum.splits if_splits)
next
  assume "username = [] \<or> password = []"
  then show "Login V username password w
        = (Inl (ValueError ''username and password must not be empty''), w)"
    by (auto simp: Login_def failE_def)
qed

text \<open>
  An unknown access key and a wrong secret fail alike; an empty access key and an empty
  secret are turned away with the world as it was: no storage call, nothing logged.
\<close>

theorem Login_failure_is_Forbidden_witness:
  "''intruder'' \<noteq> [] \<and> ''guess'' \<noteq> []
   \<and> fst (Login test_vault ''intruder'' ''guess'' (world_of seeded_db)) = Inl (ForbiddenError zero_Request)
   \<and> fst (Login test_vault ''admin'' ''guess'' (world_of seeded_db)) = Inl (ForbiddenError zero_Request)
   \<and> Login test_vault [] ''guess'' (world_of seeded_db)
       = (Inl (ValueError ''username and password must not be empty''), world_of seeded_db)
   \<and> Login test_vault ''admin'' [] (world_of seeded_db)
       = (Inl (ValueError ''username and password must not be empty''), world_of seeded_db)"
proof -
  have a: "fst (Login test_vault ''intruder'' ''guess'' (world_of seeded_db))
             = Inl (ForbiddenError zero_Request)"
    by (simp add: Login_def op_defs fixture_defs)
  obtain e where b: "fst (Login test_vault ''admin'' ''guess'' (world_of seeded_db)) = Inl e"
    by (simp add: Login_def op_defs fixture_defs)
  have "e = ForbiddenError zero_Request"
    using Login_failure_is_Forbidden [of "''admin''" "''guess''" test_vault "world_of seeded_db"] b
    by simp
  moreover have "Login test_vault [] ''guess'' (world_of seeded_db)
       = (Inl (ValueError ''username and password must not be empty''), world_of seeded_db)"
    using Login_failure_is_Forbidden [of "[]" "''guess''" test_vault "world_of seeded_db"] by simp
  moreover have "Login test_vault ''admin'' [] (world_of seeded_db)
       = (Inl (ValueError ''username and password must not be empty''), world_of seeded_db)"
    using Login_failure_is_Forbidden [of "''admin''" "[]" test_vault "world_of seeded_db"] by simp
  ultimately show ?thesis using a b by simp
qed

text \<open>
  C5 as stated fails: with an empty secret \<open>Login\<close> fails with a \<open>ValueError\<close>, with a
  wrong secret it fails with \<open>ForbiddenError\<close>.
\<close>

theorem Login_empty_secret_counterexample:
  "fst (Login test_vault ''admin'' [] (world_of seeded_db))
     = Inl (ValueError ''username and password must not be empty'')
   \<and> fst (Login test_vault [] ''guess'' (world_of seeded_db))
     = Inl (ValueError ''username and password must not be empty'')
   \<and> fst (Login test_vault ''admin'' ''guess'' (world_of seeded_db))
     = Inl (ForbiddenError zero_Request)
   \<and> ValueError ''username and password must not be empty'' \<noteq> ForbiddenError zero_Request"
  by (simp add: Login_def op_defs fixture_defs)

subsection \<open>Reading records\<close>



text \<open>
  C7, as amended. When authorization passes, the requested fields are on the collection and
  storage returns no record at all for the requested ids, \<open>GetRecords\<close> returns
  \<open>NotFoundError\<close> naming the first requested id, and no records.
\<close>

theorem GetRecords_none_found_is_NotFound:
  assumes "authorize_records V prin c (rid # rest) fmts w = (Inr (), w1)"
    and "db_GetCollection (Db V) c (store w1) = Inr col"
    and "fields_exist col c fmts = None"
    and "db_GetRecords (Db V) c (rid # rest) (store w1) = Inr []"
  shows "fst (GetRecords V prin c (rid # rest) fmts w) = Inl (NotFoundError ''record'' rid)"
  using assms by (simp add: GetRecords_run)

theorem GetRecords_none_found_is_NotFound_witness:
  "authorize_records test_vault admin ''customers'' [''rec_8'', ''rec_9''] [(''first_name'', ''plain'')]
      (world_of seeded_db)
     = (Inr (), \<lparr>store = seeded_db,
                 trace = [EvGetPolicies [''admin''], EvGetPolicies [''admin'']], minted = 0\<rparr>)
   \<and> db_GetCollection (Db test_vault) ''customers'' seeded_db = Inr customers
   \<and> fields_exist customers ''customers'' [(''first_name'', ''plain'')] = None
   \<and> db_GetRecords (Db test_vault) ''customers'' [''rec_8'', ''rec_9''] seeded_db = Inr []
   \<and> fst (GetRecords test_vault admin ''customers'' [''rec_8'', ''rec_9''] [(''first_name'', ''plain'')]
        (world_of seeded_db)) = Inl (NotFoundError ''record'' ''rec_8'')"
proof -
  have a: "authorize_records test_vault admin ''customers'' [''rec_8'', ''rec_9''] [(''first_name'', ''plain'')]
      (world_of seeded_db)
     = (Inr (), \<lparr>store = seeded_db,
                 trace = [EvGetPolicies [''admin''], EvGetPolicies [''admin'']], minted = 0\<rparr>)"
    by (simp add: run_defs)
  have b: "db_GetCollection (Db test_vault) ''customers''
             (store \<lparr>store = seeded_db,
                 trace = [EvGetPolicies [''admin''], EvGetPolicies [''admin'']], minted = 0\<rparr>) = Inr customers"
    by (simp add: mem_defs test_defs)
  have c: "fields_exist customers ''customers'' [(''first_name'', ''plain'')] = None"
    by (simp add: customers_def)
  have d: "db_GetRecords (Db test_vault) ''customers'' [''rec_8'', ''rec_9'']
             (store \<lparr>store = seeded_db,
                 trace = [EvGetPolicies [''admin''], EvGetPolicies [''admin'']], minted = 0\<rparr>) = Inr []"
    by (simp add: mem_defs test_defs)
  from GetRecords_none_found_is_NotFound [OF a b c d] a b c d show ?thesis by simp
qed

text \<open>
  C7 as stated fails: \<open>rec_9\<close> is not in storage, \<open>rec_\<close> is, and \<open>GetRecords\<close> on both
  ids, in either order, returns the record found and no error.
\<close>

theorem GetRecords_partial_counterexample:
  "db_GetRecords (Db test_vault) ''customers'' [''rec_9''] seeded_db = Inr []
   \<and> fst (GetRecords test_vault admin ''customers'' [''rec_'', ''rec_9''] [(''first_name'', ''plain'')]
        (world_of seeded_db)) = Inr [(''rec_'', [(''first_name'', ''John'')])]
   \<and> fst (GetRecords test_vault admin ''customers'' [''rec_9'', ''rec_''] [(''first_name'', ''plain'')]
        (world_of seeded_db)) = Inr [(''rec_'', [(''first_name'', ''John'')])]"
  by (simp add: run_defs)

subsection \<open>Tokens\<close>

text \<open>
  C10. \<open>GetRecords\<close> never returns an empty map without an error. So when the
  \<open>GetRecords\<close> call of \<open>CreateToken\<close> succeeds, the loop body runs on the first record
  and \<open>CreateToken\<close> returns the minted token id, or the storage error of persisting the
  token; the \<open>NotFoundError\<close> after the loop is never reached. When the call fails,
  \<open>CreateToken\<close> returns its error.
\<close>

theorem CreateToken_never_falls_through:
  "(\<forall>ids fmts recs w'. GetRecords V prin c ids fmts w = (Inr recs, w') \<longrightarrow> recs \<noteq> [])
   \<and> (\<forall>records w1. GetRecords V prin c [recordId] [(fieldName, returnFormat)] w = (Inr records, w1) \<longrightarrow>
        (\<exists>recordId' record others. records = (recordId', record) # others
          \<and> CreateToken V prin c recordId fieldName returnFormat w =
              (let tokenId = GenerateId V ''tok'' (minted w1);
                   tokenValue = c @ ''/'' @ recordId' @ ''/'' @ fieldName @ ''/'' @ returnFormat;
                   after = (\<lambda>s. w1\<lparr>store := s, trace := trace w1 @ [EvCreateToken tokenId tokenValue],
                                    minted := Suc (minted w1)\<rparr>)
               in case db_CreateToken (Db V) tokenId tokenValue (store w1) of
                    (Inl e, s) \<Rightarrow> (Inl e, after s)
                  | (Inr u, s) \<Rightarrow> (Inr tokenId, after s))))
   \<and> (\<forall>e w1. GetRecords V prin c [recordId] [(fieldName, returnFormat)] w = (Inl e, w1) \<longrightarrow>
        CreateToken V prin c recordId fieldName returnFormat w = (Inl e, w1))"
proof (intro conjI allI impI)
  fix ids fmts recs w'
  assume "GetRecords V prin c ids fmts w = (Inr recs, w')"
  then show "recs \<noteq> []" by (rule GetRecords_result_nonempty)
next
  fix records w1
  assume g: "GetRecords V prin c [recordId] [(fieldName, returnFormat)] w = (Inr records, w1)"
  then have "records \<noteq> []" by (rule GetRecords_result_nonempty)
  then obtain i d others where r: "records = (i, d) # others" by (cases records) auto
  have "CreateToken V prin c recordId fieldName returnFormat w =
              (let tokenId = GenerateId V ''tok'' (minted w1);
                   tokenValue = c @ ''/'' @ i @ ''/'' @ fieldName @ ''/'' @ returnFormat;
                   after = (\<lambda>s. w1\<lparr>store := s, trace := trace w1 @ [EvCreateToken tokenId tokenValue],
                                    minted := Suc (minted w1)\<rparr>)
               in case db_CreateToken (Db V) tokenId tokenValue (store w1) of
                    (Inl e, s) \<Rightarrow> (Inl e, after s)
                  | (Inr u, s) \<Rightarrow> (Inr tokenId, after s))"
    using g r by (simp add: CreateToken_def op_defs Let_def split: prod.splits sum.splits)
  with r show "\<exists>recordId' record others. records = (recordId', record) # others
          \<and> CreateToken V prin c recordId fieldName returnFormat w =
              (let tokenId = GenerateId V ''tok'' (minted w1);
                   tokenValue = c @ ''/'' @ recordId' @ ''/'' @ fieldName @ ''/'' @ returnFormat;
                   after = (\<lambda>s. w1\<lparr>store := s, trace := trace w1 @ [EvCreateToken tokenId tokenValue],
                                    minted := Suc (minted w1)\<rparr>)
               in case db_CreateToken (Db V) tokenId tokenValue (store w1) of
                    (Inl e, s) \<Rightarrow> (Inl e, after s)
                  | (Inr u, s) \<Rightarrow> (Inr tokenId, after s))"
    by blast
next
  fix e w1
  assume "GetRecords V prin c [recordId] [(fieldName, returnFormat)] w = (Inl e, w1)"
  then show "CreateToken V prin c recordId fieldName returnFormat w = (Inl e, w1)"
    by (simp add: CreateToken_def op_defs)
qed

lemma seeded_GetRecords:
  "GetRecords test_vault admin ''customers'' [''rec_''] [(''first_name'', ''plain'')] (world_of seeded_db)
     = (Inr [(''rec_'', [(''first_name'', ''John'')])],
        \<lparr>store = seeded_db,
         trace = [EvGetPolicies [''admin''], EvGetCollection ''customers'',
                  EvGetRecords ''customers'' [''rec_'']],
         minted = 0\<rparr>)"
  by (simp add: run_defs)

theorem CreateToken_never_falls_through_witness:
  "GetRecords test_vault admin ''customers'' [''rec_''] [(''first_name'', ''plain'')] (world_of seeded_db)
     = (Inr [(''rec_'', [(''first_name'', ''John'')])],
        \<lparr>store = seeded_db,
         trace = [EvGetPolicies [''admin''], EvGetCollection ''customers'',
                  EvGetRecords ''customers'' [''rec_'']],
         minted = 0\<rparr>)
   \<and> fst (CreateToken test_vault admin ''customers'' ''rec_'' ''first_name'' ''plain'' (world_of seeded_db))
       = Inr ''tok_''
   \<and> map_of (m_tokens (store (snd (CreateToken test_vault admin ''customers'' ''rec_'' ''first_name'' ''plain''
        (world_of seeded_db))))) ''tok_'' = Some ''customers/rec_/first_name/plain''"
  using CreateToken_never_falls_through
    [of test_vault admin "''customers''" "world_of seeded_db" "''rec_''" "''first_name''" "''plain''"]
    seeded_GetRecords
  by (simp add: Let_def mem_defs test_defs)

lemma Split_nonempty: "Split s sep \<noteq> []"
  by (induction s) (auto split: list.splits)

lemma Split_no_sep: "sep \<notin> set a \<Longrightarrow> Split a sep = [a]"
  by (induction a) auto

lemma Split_append: "sep \<notin> set a \<Longrightarrow> Split (a @ sep # b) sep = a # Split b sep"
  by (induction a) (auto split: list.splits)

lemma Split_token:
  assumes "CHR ''/'' \<notin> set c \<union> set rid \<union> set f \<union> set fmt"
  shows "Split (c @ CHR ''/'' # rid @ CHR ''/'' # f @ CHR ''/'' # fmt) CHR ''/'' = [c, rid, f, fmt]"
  using assms by (simp add: Split_append Split_no_sep)

lemma is_NotFound_not_Forbidden: "is_NotFound e \<Longrightarrow> e \<noteq> ForbiddenError request"
  by (auto simp: ErrNotFound_def)

lemma fields_exist_is_NotFound: "fields_exist col c fmts = Some e \<Longrightarrow> is_NotFound e"
  by (induction col c fmts rule: fields_exist.induct) (auto split: option.splits)

text \<open>
  C8, as amended. Take a token whose stored value is \<open>collection/record/field/format\<close>
  with no \<open>/\<close> inside the four parts, a principal allowed to read that field in that
  format, and a storage in which the record is gone (the get-many returns no record, or a
  lookup miss) and whose read of the collection fails, if at all, with a lookup miss. Then
  \<open>GetTokenValue\<close> fails with a not-found error, not with \<open>ForbiddenError\<close>.
\<close>

theorem GetTokenValue_after_delete_is_NotFound:
  assumes token: "db_GetTokenValue (Db V) tokenId (store w)
                    = Inr (c @ ''/'' @ rid @ ''/'' @ f @ ''/'' @ fmt)"
    and noslash: "CHR ''/'' \<notin> set c \<union> set rid \<union> set f \<union> set fmt"
    and authorized: "fst (ValidateAction V
        \<lparr>Actor = prin, Action = PolicyActionRead, Resource = field_resource c rid f fmt\<rparr> w) = Inr True"
    and collection: "\<forall>e. db_GetCollection (Db V) c (store w) = Inl e \<longrightarrow> is_NotFound e"
    and deleted: "db_GetRecords (Db V) c [rid] (store w) = Inr []
                  \<or> (\<exists>e. db_GetRecords (Db V) c [rid] (store w) = Inl e \<and> is_NotFound e)"
  shows "\<exists>e. fst (GetTokenValue V prin tokenId w) = Inl e \<and> is_NotFound e
              \<and> (\<forall>request. e \<noteq> ForbiddenError request)"
proof -
  let ?w0 = "w\<lparr>trace := trace w @ [EvGetTokenValue tokenId]\<rparr>"
  let ?req = "\<lparr>Actor = prin, Action = PolicyActionRead, Resource = field_resource c rid f fmt\<rparr>"
  let ?w1 = "?w0\<lparr>trace := trace ?w0 @ [EvGetPolicies (prin_Policies prin)]\<rparr>"
  from authorized obtain ps where
    ps: "db_GetPolicies (Db V) (prin_Policies prin) (store w) = Inr ps" "EvaluateRequest ?req ps"
    by (auto simp: ValidateAction_run split: sum.splits)
  have auth: "authorize_records V prin c [rid] [(f, fmt)] ?w0 = (Inr (), ?w1)"
    using ps by (simp add: authorize_run bindE_def returnE_def)
  have step: "fst (GetTokenValue V prin tokenId w) =
      (case fst (GetRecords V prin c [rid] [(f, fmt)] ?w0) of
         Inl e \<Rightarrow> Inl e
       | Inr records \<Rightarrow> (case records of [] \<Rightarrow> Inl (NotFoundError ''record'' rid)
                                      | (i, r) # others \<Rightarrow> Inr r))"
    using token
    by (simp add: GetTokenValue_def bindE_def db_read_def returnE_def failE_def
        Split_token [OF noslash] split: prod.splits sum.splits list.splits)
  have "\<exists>e. fst (GetRecords V prin c [rid] [(f, fmt)] ?w0) = Inl e \<and> is_NotFound e"
  proof (cases "db_GetCollection (Db V) c (store w)")
    case (Inl e)
    with collection auth show ?thesis by (simp add: GetRecords_run)
  next
    case col: (Inr col)
    show ?thesis
    proof (cases "fields_exist col c [(f, fmt)]")
      case (Some e)
      then have "is_NotFound e" by (rule fields_exist_is_NotFound)
      with Some col auth show ?thesis by (simp add: GetRecords_run)
    next
      case None
      from deleted show ?thesis
      proof
        assume "db_GetRecords (Db V) c [rid] (store w) = Inr []"
        with None col auth show ?thesis by (simp add: GetRecords_run)
      next
        assume "\<exists>e. db_GetRecords (Db V) c [rid] (store w) = Inl e \<and> is_NotFound e"
        with None col auth show ?thesis by (auto simp: GetRecords_run)
      qed
    qed
  qed
  then obtain e where "fst (GetRecords V prin c [rid] [(f, fmt)] ?w0) = Inl e" "is_NotFound e"
    by blast
  with step is_NotFound_not_Forbidden show ?thesis by auto
qed

text \<open>
  The administrator creates a token over \<open>first_name\<close> of the stored record, deletes the
  record and resolves the token.
\<close>

lemma token_then_delete:
  "snd (DeleteRecord test_vault admin ''customers'' ''rec_''
      (snd (CreateToken test_vault admin ''customers'' ''rec_'' ''first_name'' ''plain''
         (world_of seeded_db))))
   = \<lparr>store = seeded_db\<lparr>m_records := [], m_tokens := [(''tok_'', ''customers/rec_/first_name/plain'')]\<rparr>,
      trace = [EvGetPolicies [''admin''], EvGetCollection ''customers'',
               EvGetRecords ''customers'' [''rec_''],
               EvCreateToken ''tok_'' ''customers/rec_/first_name/plain'',
               EvGetPolicies [''admin''], EvDeleteRecord ''customers'' ''rec_''],
      minted = 1\<rparr>"
  by (simp add: run_defs CreateToken_def DeleteRecord_def)

theorem GetTokenValue_after_delete_is_NotFound_witness:
  "fst (CreateToken test_vault admin ''customers'' ''rec_'' ''first_name'' ''plain''
         (world_of seeded_db)) = Inr ''tok_''
   \<and> fst (GetTokenValue test_vault admin ''tok_''
        (snd (DeleteRecord test_vault admin ''customers'' ''rec_''
          (snd (CreateToken test_vault admin ''customers'' ''rec_'' ''first_name'' ''plain''
             (world_of seeded_db))))))
      = Inl (NotFoundError ''record'' ''rec_'')"
proof -
  let ?w = "snd (DeleteRecord test_vault admin ''customers'' ''rec_''
          (snd (CreateToken test_vault admin ''customers'' ''rec_'' ''first_name'' ''plain''
             (world_of seeded_db))))"
  have a: "db_GetTokenValue (Db test_vault) ''tok_'' (store ?w)
             = Inr (''customers'' @ ''/'' @ ''rec_'' @ ''/'' @ ''first_name'' @ ''/'' @ ''plain'')"
    by (simp add: token_then_delete) (simp add: mem_defs test_defs)
  have b: "CHR ''/'' \<notin> set ''customers'' \<union> set ''rec_'' \<union> set ''first_name'' \<union> set ''plain''"
    by simp
  have c: "fst (ValidateAction test_vault
        \<lparr>Actor = admin, Action = PolicyActionRead,
          Resource = field_resource ''customers'' ''rec_'' ''first_name'' ''plain''\<rparr> ?w) = Inr True"
    by (simp add: token_then_delete) (simp add: run_defs)
  have d: "\<forall>e. db_GetCollection (Db test_vault) ''customers'' (store ?w) = Inl e \<longrightarrow> is_NotFound e"
    by (simp add: token_then_delete) (simp add: mem_defs test_defs)
  have e: "db_GetRecords (Db test_vault) ''customers'' [''rec_''] (store ?w) = Inr []
           \<or> (\<exists>e. db_GetRecords (Db test_vault) ''customers'' [''rec_''] (store ?w) = Inl e \<and> is_NotFound e)"
    by (simp add: token_then_delete) (simp add: mem_defs test_defs)
  from GetTokenValue_after_delete_is_NotFound [OF a b c d e]
  obtain err where r: "fst (GetTokenValue test_vault admin ''tok_'' ?w) = Inl err" "is_NotFound err"
    by blast
  have "fst (GetTokenValue test_vault admin ''tok_'' ?w) = Inl (NotFoundError ''record'' ''rec_'')"
    by (simp add: token_then_delete) (simp add: run_defs GetTokenValue_def)
  moreover have "fst (CreateToken test_vault admin ''customers'' ''rec_'' ''first_name'' ''plain''
         (world_of seeded_db)) = Inr ''tok_''"
    by (simp add: run_defs CreateToken_def)
  ultimately show ?thesis using r by simp
qed

text \<open>
  C8 as stated fails: a token created over the field \<open>a/b\<close> stores a value of five parts,
  and after the record is deleted \<open>GetTokenValue\<close> fails with the error for an invalid
  token value, which is no not-found error.
\<close>

theorem GetTokenValue_slash_counterexample:
  "fst (CreateToken test_vault admin ''cards'' ''rec_'' ''a/b'' ''plain'' (world_of slash_db))
     = Inr ''tok_''
   \<and> fst (DeleteRecord test_vault admin ''cards'' ''rec_''
        (snd (CreateToken test_vault admin ''cards'' ''rec_'' ''a/b'' ''plain'' (world_of slash_db))))
     = Inr ()
   \<and> fst (GetTokenValue test_vault admin ''tok_''
        (snd (DeleteRecord test_vault admin ''cards'' ''rec_''
          (snd (CreateToken test_vault admin ''cards'' ''rec_'' ''a/b'' ''plain'' (world_of slash_db))))))
     = Inl (ErrorString ''invalid token value: cards/rec_/a/b/plain stored in token: tok_'')
   \<and> \<not> is_NotFound (ErrorString ''invalid token value: cards/rec_/a/b/plain stored in token: tok_'')"
  by (simp add: run_defs CreateToken_def DeleteRecord_def GetTokenValue_def)

subsection \<open>Authorization before storage\<close>

lemma authorize_denied:
  "denied V request w \<Longrightarrow> bindE (authorize V request) f w = refused request w"
  by (auto simp: denied_def refused_def ValidateAction_run authorize_run bindE_def split: sum.splits)

lemma bindE_fail: "m w = (Inl e, w') \<Longrightarrow> bindE m f w = (Inl e, w')"
  by (simp add: bindE_def)

lemma denied_iff:
  "denied V request w =
     (\<exists>ps. db_GetPolicies (Db V) (prin_Policies (Actor request)) (store w) = Inr ps
           \<and> \<not> EvaluateRequest request ps)"
  by (auto simp: denied_def ValidateAction_run split: sum.splits)

lemma authorize_formats_cases:
  assumes "db_GetPolicies (Db V) (prin_Policies prin) (store w) = Inr ps"
  shows "(if \<forall>(f, fmt) \<in> set fmts. EvaluateRequest
              \<lparr>Actor = prin, Action = PolicyActionRead, Resource = field_resource c rid f fmt\<rparr> ps
          then authorize_formats V prin c rid fmts w
                 = (Inr (), w\<lparr>trace := trace w @ replicate (length fmts) (EvGetPolicies (prin_Policies prin))\<rparr>)
          else \<exists>f fmt n. (f, fmt) \<in> set fmts
                 \<and> \<not> EvaluateRequest
                      \<lparr>Actor = prin, Action = PolicyActionRead, Resource = field_resource c rid f fmt\<rparr> ps
                 \<and> authorize_formats V prin c rid fmts w
                     = (Inl (ForbiddenError
                          \<lparr>Actor = prin, Action = PolicyActionRead, Resource = field_resource c rid f fmt\<rparr>),
                        w\<lparr>trace := trace w @ replicate (Suc n) (EvGetPolicies (prin_Policies prin))\<rparr>))"
  using assms
proof (induction fmts arbitrary: w)
  case Nil
  then show ?case by (simp add: returnE_def)
next
  case (Cons a fmts)
  obtain f fmt where a: "a = (f, fmt)" by (cases a)
  let ?ev = "EvGetPolicies (prin_Policies prin)"
  let ?req = "\<lambda>f fmt. \<lparr>Actor = prin, Action = PolicyActionRead, Resource = field_resource c rid f fmt\<rparr>"
  let ?w1 = "w\<lparr>trace := trace w @ [?ev]\<rparr>"
  show ?case
  proof (cases "EvaluateRequest (?req f fmt) ps")
    case False
    with Cons.prems have "authorize V (?req f fmt) w = (Inl (ForbiddenError (?req f fmt)), ?w1)"
      by (simp add: authorize_run)
    then have "authorize_formats V prin c rid (a # fmts) w
        = (Inl (ForbiddenError (?req f fmt)), w\<lparr>trace := trace w @ replicate (Suc 0) ?ev\<rparr>)"
      using a by (simp add: bindE_def)
    moreover have "(f, fmt) \<in> set (a # fmts)" using a by simp
    moreover have "\<not> (\<forall>(f, fmt) \<in> set (a # fmts). EvaluateRequest (?req f fmt) ps)"
      using False a by auto
    ultimately show ?thesis using False by (simp only: if_False) blast
  next
    case True
    with Cons.prems have step: "authorize V (?req f fmt) w = (Inr (), ?w1)"
      by (simp add: authorize_run)
    have unfold: "authorize_formats V prin c rid (a # fmts) w = authorize_formats V prin c rid fmts ?w1"
      using a step by (simp add: bindE_def)
    have pol: "db_GetPolicies (Db V) (prin_Policies prin) (store ?w1) = Inr ps"
      using Cons.prems by simp
    note IH = Cons.IH [OF pol]
    show ?thesis
    proof (cases "\<forall>(f, fmt) \<in> set fmts. EvaluateRequest (?req f fmt) ps")
      case all: True
      with IH have "authorize_formats V prin c rid fmts ?w1
          = (Inr (), ?w1\<lparr>trace := trace ?w1 @ replicate (length fmts) ?ev\<rparr>)"
        by simp
      then have "authorize_formats V prin c rid (a # fmts) w
          = (Inr (), w\<lparr>trace := trace w @ replicate (length (a # fmts)) ?ev\<rparr>)"
        using unfold by simp
      moreover have "\<forall>(f, fmt) \<in> set (a # fmts). EvaluateRequest (?req f fmt) ps"
        using all True a by simp
      ultimately show ?thesis by simp
    next
      case some: False
      with IH obtain f' fmt' n where
        m: "(f', fmt') \<in> set fmts" and d: "\<not> EvaluateRequest (?req f' fmt') ps"
        and r: "authorize_formats V prin c rid fmts ?w1
                  = (Inl (ForbiddenError (?req f' fmt')),
                     ?w1\<lparr>trace := trace ?w1 @ replicate (Suc n) ?ev\<rparr>)"
        by auto
      have "authorize_formats V prin c rid (a # fmts) w
                  = (Inl (ForbiddenError (?req f' fmt')),
                     w\<lparr>trace := trace w @ replicate (Suc (Suc n)) ?ev\<rparr>)"
        using unfold r by simp
      moreover have "(f', fmt') \<in> set (a # fmts)" using m by simp
      moreover have "\<not> (\<forall>(f, fmt) \<in> set (a # fmts). EvaluateRequest (?req f fmt) ps)"
        using some by auto
      ultimately show ?thesis using d by (simp only: if_False) blast
    qed
  qed
qed

lemma authorize_records_denied:
  assumes pol: "db_GetPolicies (Db V) (prin_Policies prin) (store w) = Inr ps"
    and "rid \<in> set ids" and "(f, fmt) \<in> set fmts"
    and "\<not> EvaluateRequest
           \<lparr>Actor = prin, Action = PolicyActionRead, Resource = field_resource c rid f fmt\<rparr> ps"
  shows "\<exists>rid' f' fmt' n. rid' \<in> set ids \<and> (f', fmt') \<in> set fmts
           \<and> \<not> EvaluateRequest
                \<lparr>Actor = prin, Action = PolicyActionRead, Resource = field_resource c rid' f' fmt'\<rparr> ps
           \<and> authorize_records V prin c ids fmts w
               = (Inl (ForbiddenError
                    \<lparr>Actor = prin, Action = PolicyActionRead, Resource = field_resource c rid' f' fmt'\<rparr>),
                  w\<lparr>trace := trace w @ replicate (Suc n) (EvGetPolicies (prin_Policies prin))\<rparr>)"
  using assms
proof (induction ids arbitrary: w)
  case Nil
  then show ?case by simp
next
  case (Cons i ids)
  let ?ev = "EvGetPolicies (prin_Policies prin)"
  let ?req = "\<lambda>r f fmt. \<lparr>Actor = prin, Action = PolicyActionRead, Resource = field_resource c r f fmt\<rparr>"
  note here = authorize_formats_cases [OF Cons.prems(1), of fmts c i]
  show ?case
  proof (cases "\<forall>(f, fmt) \<in> set fmts. EvaluateRequest (?req i f fmt) ps")
    case False
    with here obtain f' fmt' n where
      m: "(f', fmt') \<in> set fmts" and d: "\<not> EvaluateRequest (?req i f' fmt') ps"
      and r: "authorize_formats V prin c i fmts w
                = (Inl (ForbiddenError (?req i f' fmt')), w\<lparr>trace := trace w @ replicate (Suc n) ?ev\<rparr>)"
      by auto
    from r have "authorize_records V prin c (i # ids) fmts w
                = (Inl (ForbiddenError (?req i f' fmt')), w\<lparr>trace := trace w @ replicate (Suc n) ?ev\<rparr>)"
      by (simp add: bindE_def)
    with m d show ?thesis by (intro exI [of _ i] exI [of _ f'] exI [of _ fmt'] exI [of _ n]) simp
  next
    case True
    let ?w1 = "w\<lparr>trace := trace w @ replicate (length fmts) ?ev\<rparr>"
    from True here have r: "authorize_formats V prin c i fmts w = (Inr (), ?w1)" by simp
    from True Cons.prems(3,4) have "rid \<noteq> i" by auto
    with Cons.prems(2) have mem: "rid \<in> set ids" by simp
    have pol1: "db_GetPolicies (Db V) (prin_Policies prin) (store ?w1) = Inr ps"
      using Cons.prems(1) by simp
    from Cons.IH [OF pol1 mem Cons.prems(3,4)] obtain rid' f' fmt' n where
      m: "rid' \<in> set ids" "(f', fmt') \<in> set fmts" and d: "\<not> EvaluateRequest (?req rid' f' fmt') ps"
      and rr: "authorize_records V prin c ids fmts ?w1
                = (Inl (ForbiddenError (?req rid' f' fmt')),
                   ?w1\<lparr>trace := trace ?w1 @ replicate (Suc n) ?ev\<rparr>)"
      by blast
    have "authorize_records V prin c (i # ids) fmts w
            = (Inl (ForbiddenError (?req rid' f' fmt')),
               w\<lparr>trace := trace w @ replicate (Suc (length fmts + n)) ?ev\<rparr>)"
      using r rr by (simp add: bindE_def replicate_add [symmetric] del: replicate_Suc replicate.simps)
    with m d show ?thesis
      by (intro exI [of _ rid'] exI [of _ f'] exI [of _ fmt'] exI [of _ "length fmts + n"]) simp
  qed
qed

lemma GetRecords_denied_anywhere:
  assumes "denied V \<lparr>Actor = prin, Action = PolicyActionRead,
                      Resource = field_resource c rid f fmt\<rparr> w"
    and "rid \<in> set ids" and "(f, fmt) \<in> set fmts"
  shows "\<exists>rid' f' fmt' n. rid' \<in> set ids \<and> (f', fmt') \<in> set fmts
           \<and> denied V \<lparr>Actor = prin, Action = PolicyActionRead,
                         Resource = field_resource c rid' f' fmt'\<rparr> w
           \<and> GetRecords V prin c ids fmts w
               = (Inl (ForbiddenError
                    \<lparr>Actor = prin, Action = PolicyActionRead, Resource = field_resource c rid' f' fmt'\<rparr>),
                  w\<lparr>trace := trace w @ replicate (Suc n) (EvGetPolicies (prin_Policies prin))\<rparr>)"
proof -
  from assms(1) obtain ps where
    pol: "db_GetPolicies (Db V) (prin_Policies prin) (store w) = Inr ps"
    and d: "\<not> EvaluateRequest
           \<lparr>Actor = prin, Action = PolicyActionRead, Resource = field_resource c rid f fmt\<rparr> ps"
    by (auto simp: denied_iff)
  from authorize_records_denied [OF pol assms(2,3) d] obtain rid' f' fmt' n where
    m: "rid' \<in> set ids" "(f', fmt') \<in> set fmts"
    and d': "\<not> EvaluateRequest
                \<lparr>Actor = prin, Action = PolicyActionRead, Resource = field_resource c rid' f' fmt'\<rparr> ps"
    and r: "authorize_records V prin c ids fmts w
               = (Inl (ForbiddenError
                    \<lparr>Actor = prin, Action = PolicyActionRead, Resource = field_resource c rid' f' fmt'\<rparr>),
                  w\<lparr>trace := trace w @ replicate (Suc n) (EvGetPolicies (prin_Policies prin))\<rparr>)"
    by blast
  from assms(2) obtain i rest where ids: "ids = i # rest" by (cases ids) auto
  have "GetRecords V prin c ids fmts w
               = (Inl (ForbiddenError
                    \<lparr>Actor = prin, Action = PolicyActionRead, Resource = field_resource c rid' f' fmt'\<rparr>),
                  w\<lparr>trace := trace w @ replicate (Suc n) (EvGetPolicies (prin_Policies prin))\<rparr>)"
    using r unfolding ids by (simp only: GetRecords_run) simp
  moreover have "denied V \<lparr>Actor = prin, Action = PolicyActionRead,
                         Resource = field_resource c rid' f' fmt'\<rparr> w"
    using pol d' by (auto simp: denied_iff)
  ultimately show ?thesis using m by blast
qed

text \<open>
  C1, as amended. For each operation that opens with one request to the policy engine
  (the operations on collections, principals, policies and subjects, \<open>CreateRecords\<close>,
  \<open>UpdateRecord\<close>, \<open>DeleteRecord\<close>), for \<open>CreatePolicy\<close> once its resources all start
  with \<open>/\<close>, for \<open>CreateToken\<close> on the field it tokenizes and for \<open>GetRecords\<close>: a
  principal the policy engine denies gets \<open>ForbiddenError\<close> with the denied request, and
  the only storage calls made are the policy engine's own fetches of the principal's
  policies; the storage state is untouched. For \<open>GetRecords\<close> this holds whichever
  requested (record id, field, format) is denied: the error names a denied one of them
  (the first in the order of the loops), and nothing but policy fetches precedes it.
  \<open>CreatePolicy\<close> with a resource that does not start with \<open>/\<close> returns its
  \<open>ValueError\<close> before the policy engine is asked and without any call.
\<close>

theorem denied_principal_is_refused:
  "(denied V \<lparr>Actor = prin, Action = PolicyActionRead, Resource = COLLECTIONS_PPATH @ ''/'' @ name\<rparr> w
      \<longrightarrow> GetCollection V prin name w
          = refused \<lparr>Actor = prin, Action = PolicyActionRead, Resource = COLLECTIONS_PPATH @ ''/'' @ name\<rparr> w)
   \<and> (denied V \<lparr>Actor = prin, Action = PolicyActionRead, Resource = COLLECTIONS_PPATH\<rparr> w
      \<longrightarrow> GetCollections V prin w
          = refused \<lparr>Actor = prin, Action = PolicyActionRead, Resource = COLLECTIONS_PPATH\<rparr> w)
   \<and> (denied V \<lparr>Actor = prin, Action = PolicyActionWrite, Resource = COLLECTIONS_PPATH\<rparr> w
      \<longrightarrow> CreateCollection V prin col w
          = refused \<lparr>Actor = prin, Action = PolicyActionWrite, Resource = COLLECTIONS_PPATH\<rparr> w)
   \<and> (denied V \<lparr>Actor = prin, Action = PolicyActionWrite, Resource = COLLECTIONS_PPATH @ ''/'' @ name\<rparr> w
      \<longrightarrow> DeleteCollection V prin name w
          = refused \<lparr>Actor = prin, Action = PolicyActionWrite, Resource = COLLECTIONS_PPATH @ ''/'' @ name\<rparr> w)
   \<and> (denied V \<lparr>Actor = prin, Action = PolicyActionWrite,
                 Resource = COLLECTIONS_PPATH @ ''/'' @ name @ RECORDS_PPATH\<rparr> w
      \<longrightarrow> CreateRecords V prin name records w
          = refused \<lparr>Actor = prin, Action = PolicyActionWrite,
                     Resource = COLLECTIONS_PPATH @ ''/'' @ name @ RECORDS_PPATH\<rparr> w
        \<and> UpdateRecord V prin name recordID patch w
          = refused \<lparr>Actor = prin, Action = PolicyActionWrite,
                     Resource = COLLECTIONS_PPATH @ ''/'' @ name @ RECORDS_PPATH\<rparr> w
        \<and> DeleteRecord V prin name recordID w
          = refused \<lparr>Actor = prin, Action = PolicyActionWrite,
                     Resource = COLLECTIONS_PPATH @ ''/'' @ name @ RECORDS_PPATH\<rparr> w)
   \<and> (denied V \<lparr>Actor = prin, Action = PolicyActionRead,
                 Resource = field_resource name recordID field format\<rparr> w
      \<longrightarrow> GetRecords V prin name (recordID # moreIDs) ((field, format) # moreFormats) w
          = refused \<lparr>Actor = prin, Action = PolicyActionRead,
                     Resource = field_resource name recordID field format\<rparr> w
        \<and> CreateToken V prin name recordID field format w
          = refused \<lparr>Actor = prin, Action = PolicyActionRead,
                     Resource = field_resource name recordID field format\<rparr> w)
   \<and> (denied V \<lparr>Actor = prin, Action = PolicyActionRead,
                 Resource = PRINCIPALS_PPATH @ ''/'' @ username @ ''/''\<rparr> w
      \<longrightarrow> GetPrincipal V prin username w
          = refused \<lparr>Actor = prin, Action = PolicyActionRead,
                     Resource = PRINCIPALS_PPATH @ ''/'' @ username @ ''/''\<rparr> w)
   \<and> (denied V \<lparr>Actor = prin, Action = PolicyActionWrite, Resource = PRINCIPALS_PPATH\<rparr> w
      \<longrightarrow> CreatePrincipal V prin newPrincipal w
          = refused \<lparr>Actor = prin, Action = PolicyActionWrite, Resource = PRINCIPALS_PPATH\<rparr> w)
   \<and> (denied V \<lparr>Actor = prin, Action = PolicyActionWrite,
                 Resource = PRINCIPALS_PPATH @ ''/'' @ username @ ''/''\<rparr> w
      \<longrightarrow> DeletePrincipal V prin username w
          = refused \<lparr>Actor = prin, Action = PolicyActionWrite,
                     Resource = PRINCIPALS_PPATH @ ''/'' @ username @ ''/''\<rparr> w)
   \<and> (check_resources (pol_Resources p) = None
        \<and> denied V \<lparr>Actor = prin, Action = PolicyActionWrite, Resource = POLICIES_PPATH\<rparr> w
      \<longrightarrow> CreatePolicy V prin p w
          = refused \<lparr>Actor = prin, Action = PolicyActionWrite, Resource = POLICIES_PPATH\<rparr> w)
   \<and> (\<forall>e. check_resources (pol_Resources p) = Some e \<longrightarrow> CreatePolicy V prin p w = (Inl e, w))
   \<and> (denied V \<lparr>Actor = prin, Action = PolicyActionRead, Resource = POLICIES_PPATH @ ''/'' @ policyId\<rparr> w
      \<longrightarrow> GetPolicy V prin policyId w
          = refused \<lparr>Actor = prin, Action = PolicyActionRead, Resource = POLICIES_PPATH @ ''/'' @ policyId\<rparr> w)
   \<and> (denied V \<lparr>Actor = prin, Action = PolicyActionWrite, Resource = POLICIES_PPATH @ ''/'' @ policyId\<rparr> w
      \<longrightarrow> DeletePolicy V prin policyId w
          = refused \<lparr>Actor = prin, Action = PolicyActionWrite, Resource = POLICIES_PPATH @ ''/'' @ policyId\<rparr> w)
   \<and> (denied V \<lparr>Actor = prin, Action = PolicyActionRead, Resource = POLICIES_PPATH\<rparr> w
      \<longrightarrow> GetPrincipalPolicies V prin w
          = refused \<lparr>Actor = prin, Action = PolicyActionRead, Resource = POLICIES_PPATH\<rparr> w)
   \<and> (denied V \<lparr>Actor = prin, Action = PolicyActionWrite, Resource = SUBJECTS_PPATH\<rparr> w
      \<longrightarrow> CreateSubject V prin subject w
          = refused \<lparr>Actor = prin, Action = PolicyActionWrite, Resource = SUBJECTS_PPATH\<rparr> w)
   \<and> (denied V \<lparr>Actor = prin, Action = PolicyActionRead, Resource = SUBJECTS_PPATH @ ''/'' @ subjectId\<rparr> w
      \<longrightarrow> GetSubject V prin subjectId w
          = refused \<lparr>Actor = prin, Action = PolicyActionRead, Resource = SUBJECTS_PPATH @ ''/'' @ subjectId\<rparr> w)
   \<and> (denied V \<lparr>Actor = prin, Action = PolicyActionWrite, Resource = SUBJECTS_PPATH @ ''/'' @ subjectId\<rparr> w
      \<longrightarrow> DeleteSubject V prin subjectId w
          = refused \<lparr>Actor = prin, Action = PolicyActionWrite, Resource = SUBJECTS_PPATH @ ''/'' @ subjectId\<rparr> w)
   \<and> (denied V \<lparr>Actor = prin, Action = PolicyActionRead,
                 Resource = field_resource name anyID anyField anyFormat\<rparr> w
        \<and> anyID \<in> set ids \<and> (anyField, anyFormat) \<in> set formats
      \<longrightarrow> (\<exists>deniedID deniedField deniedFormat n.
            deniedID \<in> set ids \<and> (deniedField, deniedFormat) \<in> set formats
            \<and> denied V \<lparr>Actor = prin, Action = PolicyActionRead,
                          Resource = field_resource name deniedID deniedField deniedFormat\<rparr> w
            \<and> GetRecords V prin name ids formats w
                = (Inl (ForbiddenError \<lparr>Actor = prin, Action = PolicyActionRead,
                          Resource = field_resource name deniedID deniedField deniedFormat\<rparr>),
                   w\<lparr>trace := trace w @ replicate (Suc n) (EvGetPolicies (prin_Policies prin))\<rparr>)))"
proof -
  have records: "GetRecords V prin name (recordID # moreIDs) ((field, format) # moreFormats) w
          = refused \<lparr>Actor = prin, Action = PolicyActionRead,
                     Resource = field_resource name recordID field format\<rparr> w"
    if d: "denied V \<lparr>Actor = prin, Action = PolicyActionRead,
                 Resource = field_resource name recordID field format\<rparr> w"
    for moreIDs moreFormats
  proof -
    have "authorize_formats V prin name recordID ((field, format) # moreFormats) w
            = refused \<lparr>Actor = prin, Action = PolicyActionRead,
                     Resource = field_resource name recordID field format\<rparr> w"
      by (simp only: authorize_formats.simps authorize_denied [OF d])
    then have "authorize_records V prin name (recordID # moreIDs) ((field, format) # moreFormats) w
            = refused \<lparr>Actor = prin, Action = PolicyActionRead,
                     Resource = field_resource name recordID field format\<rparr> w"
      by (simp only: authorize_records.simps refused_def bindE_fail)
    then show ?thesis by (simp add: GetRecords_run refused_def)
  qed
  have token: "CreateToken V prin name recordID field format w
          = refused \<lparr>Actor = prin, Action = PolicyActionRead,
                     Resource = field_resource name recordID field format\<rparr> w"
    if d: "denied V \<lparr>Actor = prin, Action = PolicyActionRead,
                 Resource = field_resource name recordID field format\<rparr> w"
    using records [OF d, of "[]" "[]"] by (simp add: CreateToken_def bindE_def refused_def)
  have policy: "CreatePolicy V prin p w
          = refused \<lparr>Actor = prin, Action = PolicyActionWrite, Resource = POLICIES_PPATH\<rparr> w"
    if "check_resources (pol_Resources p) = None"
      and "denied V \<lparr>Actor = prin, Action = PolicyActionWrite, Resource = POLICIES_PPATH\<rparr> w"
    using that by (simp add: CreatePolicy_def authorize_denied)
  have bad: "\<forall>e. check_resources (pol_Resources p) = Some e \<longrightarrow> CreatePolicy V prin p w = (Inl e, w)"
    by (simp add: CreatePolicy_def failE_def)
  have anywhere: "\<exists>deniedID deniedField deniedFormat n.
            deniedID \<in> set ids \<and> (deniedField, deniedFormat) \<in> set formats
            \<and> denied V \<lparr>Actor = prin, Action = PolicyActionRead,
                          Resource = field_resource name deniedID deniedField deniedFormat\<rparr> w
            \<and> GetRecords V prin name ids formats w
                = (Inl (ForbiddenError \<lparr>Actor = prin, Action = PolicyActionRead,
                          Resource = field_resource name deniedID deniedField deniedFormat\<rparr>),
                   w\<lparr>trace := trace w @ replicate (Suc n) (EvGetPolicies (prin_Policies prin))\<rparr>)"
    if "denied V \<lparr>Actor = prin, Action = PolicyActionRead,
                 Resource = field_resource name anyID anyField anyFormat\<rparr> w
        \<and> anyID \<in> set ids \<and> (anyField, anyFormat) \<in> set formats"
    using that GetRecords_denied_anywhere [of V prin name anyID anyField anyFormat w ids formats]
    by blast
  show ?thesis
    apply (intro conjI impI)
    apply (simp_all only: GetCollection_def GetCollections_def CreateCollection_def DeleteCollection_def
        CreateRecords_def UpdateRecord_def DeleteRecord_def GetPrincipal_def CreatePrincipal_def
        DeletePrincipal_def GetPolicy_def DeletePolicy_def GetPrincipalPolicies_def CreateSubject_def
        GetSubject_def DeleteSubject_def authorize_denied records token)
    using policy bad anywhere apply blast+
    done
qed

text \<open>The principal without policies is refused by every one of these operations.\<close>

lemma nobody_denied:
  "Actor request = nobody \<Longrightarrow> denied test_vault request (world_of seeded_db)"
  by (simp add: denied_def ValidateAction_run mem_defs test_defs EvaluateRequest_def)

theorem denied_principal_is_refused_witness:
  "check_resources (pol_Resources admin_policy) = None
   \<and> denied test_vault \<lparr>Actor = nobody, Action = PolicyActionWrite, Resource = POLICIES_PPATH\<rparr>
        (world_of seeded_db)
   \<and> refused \<lparr>Actor = nobody, Action = PolicyActionWrite, Resource = POLICIES_PPATH\<rparr> (world_of seeded_db)
       = (Inl (ForbiddenError \<lparr>Actor = nobody, Action = ''write'', Resource = ''/policies''\<rparr>) :: error + unit,
          \<lparr>store = seeded_db, trace = [EvGetPolicies []], minted = 0\<rparr>)
   \<and> GetCollection test_vault nobody ''customers'' (world_of seeded_db)
       = refused \<lparr>Actor = nobody, Action = PolicyActionRead, Resource = COLLECTIONS_PPATH @ ''/'' @ ''customers''\<rparr> (world_of seeded_db)
   \<and> GetCollections test_vault nobody (world_of seeded_db)
       = refused \<lparr>Actor = nobody, Action = PolicyActionRead, Resource = COLLECTIONS_PPATH\<rparr> (world_of seeded_db)
   \<and> CreateCollection test_vault nobody customers (world_of seeded_db)
       = refused \<lparr>Actor = nobody, Action = PolicyActionWrite, Resource = COLLECTIONS_PPATH\<rparr> (world_of seeded_db)
   \<and> DeleteCollection test_vault nobody ''customers'' (world_of seeded_db)
       = refused \<lparr>Actor = nobody, Action = PolicyActionWrite, Resource = COLLECTIONS_PPATH @ ''/'' @ ''customers''\<rparr> (world_of seeded_db)
   \<and> CreateRecords test_vault nobody ''customers'' [[(''first_name'', ''Jane'')]] (world_of seeded_db)
       = refused \<lparr>Actor = nobody, Action = PolicyActionWrite, Resource = COLLECTIONS_PPATH @ ''/'' @ ''customers'' @ RECORDS_PPATH\<rparr> (world_of seeded_db)
   \<and> UpdateRecord test_vault nobody ''customers'' ''rec_'' [(''first_name'', ''Jane'')] (world_of seeded_db)
       = refused \<lparr>Actor = nobody, Action = PolicyActionWrite, Resource = COLLECTIONS_PPATH @ ''/'' @ ''customers'' @ RECORDS_PPATH\<rparr> (world_of seeded_db)
   \<and> DeleteRecord test_vault nobody ''customers'' ''rec_'' (world_of seeded_db)
       = refused \<lparr>Actor = nobody, Action = PolicyActionWrite, Resource = COLLECTIONS_PPATH @ ''/'' @ ''customers'' @ RECORDS_PPATH\<rparr> (world_of seeded_db)
   \<and> GetRecords test_vault nobody ''customers'' (''rec_'' # []) ((''first_name'', ''plain'') # []) (world_of seeded_db)
       = refused \<lparr>Actor = nobody, Action = PolicyActionRead, Resource = field_resource ''customers'' ''rec_'' ''first_name'' ''plain''\<rparr> (world_of seeded_db)
   \<and> CreateToken test_vault nobody ''customers'' ''rec_'' ''first_name'' ''plain'' (world_of seeded_db)
       = refused \<lparr>Actor = nobody, Action = PolicyActionRead, Resource = field_resource ''customers'' ''rec_'' ''first_name'' ''plain''\<rparr> (world_of seeded_db)
   \<and> GetPrincipal test_vault nobody ''admin'' (world_of seeded_db)
       = refused \<lparr>Actor = nobody, Action = PolicyActionRead, Resource = PRINCIPALS_PPATH @ ''/'' @ ''admin'' @ ''/''\<rparr> (world_of seeded_db)
   \<and> CreatePrincipal test_vault nobody admin (world_of seeded_db)
       = refused \<lparr>Actor = nobody, Action = PolicyActionWrite, Resource = PRINCIPALS_PPATH\<rparr> (world_of seeded_db)
   \<and> DeletePrincipal test_vault nobody ''admin'' (world_of seeded_db)
       = refused \<lparr>Actor = nobody, Action = PolicyActionWrite, Resource = PRINCIPALS_PPATH @ ''/'' @ ''admin'' @ ''/''\<rparr> (world_of seeded_db)
   \<and> CreatePolicy test_vault nobody admin_policy (world_of seeded_db)
       = refused \<lparr>Actor = nobody, Action = PolicyActionWrite, Resource = POLICIES_PPATH\<rparr> (world_of seeded_db)
   \<and> GetPolicy test_vault nobody ''admin'' (world_of seeded_db)
       = refused \<lparr>Actor = nobody, Action = PolicyActionRead, Resource = POLICIES_PPATH @ ''/'' @ ''admin''\<rparr> (world_of seeded_db)
   \<and> DeletePolicy test_vault nobody ''admin'' (world_of seeded_db)
       = refused \<lparr>Actor = nobody, Action = PolicyActionWrite, Resource = POLICIES_PPATH @ ''/'' @ ''admin''\<rparr> (world_of seeded_db)
   \<and> GetPrincipalPolicies test_vault nobody (world_of seeded_db)
       = refused \<lparr>Actor = nobody, Action = PolicyActionRead, Resource = POLICIES_PPATH\<rparr> (world_of seeded_db)
   \<and> CreateSubject test_vault nobody subject0 (world_of seeded_db)
       = refused \<lparr>Actor = nobody, Action = PolicyActionWrite, Resource = SUBJECTS_PPATH\<rparr> (world_of seeded_db)
   \<and> GetSubject test_vault nobody ''sub_'' (world_of seeded_db)
       = refused \<lparr>Actor = nobody, Action = PolicyActionRead, Resource = SUBJECTS_PPATH @ ''/'' @ ''sub_''\<rparr> (world_of seeded_db)
   \<and> DeleteSubject test_vault nobody ''sub_'' (world_of seeded_db)
       = refused \<lparr>Actor = nobody, Action = PolicyActionWrite, Resource = SUBJECTS_PPATH @ ''/'' @ ''sub_''\<rparr> (world_of seeded_db)
   \<and> fst (ValidateAction test_vault \<lparr>Actor = clerk, Action = PolicyActionRead,
            Resource = field_resource ''customers'' ''rec_'' ''first_name'' ''plain''\<rparr>
            (world_of clerk_db)) = Inr True
   \<and> denied test_vault \<lparr>Actor = clerk, Action = PolicyActionRead,
         Resource = field_resource ''customers'' ''rec_2'' ''first_name'' ''plain''\<rparr> (world_of clerk_db)
   \<and> GetRecords test_vault clerk ''customers'' [''rec_'', ''rec_2''] [(''first_name'', ''plain'')]
        (world_of clerk_db)
       = (Inl (ForbiddenError \<lparr>Actor = clerk, Action = ''read'',
                 Resource = ''/collections/customers/records/rec_2/first_name.plain''\<rparr>),
          \<lparr>store = clerk_db, trace = [EvGetPolicies [''clerk''], EvGetPolicies [''clerk'']],
           minted = 0\<rparr>)"
proof -
  have d: "denied test_vault \<lparr>Actor = nobody, Action = a, Resource = r\<rparr> (world_of seeded_db)" for a r
    by (rule nobody_denied) simp
  have c: "check_resources (pol_Resources admin_policy) = None"
    by (simp add: admin_policy_def HasPrefix_def)
  have r: "refused \<lparr>Actor = nobody, Action = PolicyActionWrite, Resource = POLICIES_PPATH\<rparr> (world_of seeded_db)
       = (Inl (ForbiddenError \<lparr>Actor = nobody, Action = ''write'', Resource = ''/policies''\<rparr>) :: error + unit,
          \<lparr>store = seeded_db, trace = [EvGetPolicies []], minted = 0\<rparr>)"
    by (simp add: refused_def world_of_def nobody_def const_defs)
  from denied_principal_is_refused [of test_vault nobody "''customers''" "world_of seeded_db" customers
      "[[(''first_name'', ''Jane'')]]" "''rec_''" "[(''first_name'', ''Jane'')]" "''first_name''" "''plain''"
      "[]" "[]" "''admin''" admin admin_policy "''admin''" subject0 "''sub_''"]
    d c r
  have part: "check_resources (pol_Resources admin_policy) = None
   \<and> denied test_vault \<lparr>Actor = nobody, Action = PolicyActionWrite, Resource = POLICIES_PPATH\<rparr>
        (world_of seeded_db)
   \<and> refused \<lparr>Actor = nobody, Action = PolicyActionWrite, Resource = POLICIES_PPATH\<rparr> (world_of seeded_db)
       = (Inl (ForbiddenError \<lparr>Actor = nobody, Action = ''write'', Resource = ''/policies''\<rparr>) :: error + unit,
          \<lparr>store = seeded_db, trace = [EvGetPolicies []], minted = 0\<rparr>)
   \<and> GetCollection test_vault nobody ''customers'' (world_of seeded_db)
       = refused \<lparr>Actor = nobody, Action = PolicyActionRead, Resource = COLLECTIONS_PPATH @ ''/'' @ ''customers''\<rparr> (world_of seeded_db)
   \<and> GetCollections test_vault nobody (world_of seeded_db)
       = refused \<lparr>Actor = nobody, Action = PolicyActionRead, Resource = COLLECTIONS_PPATH\<rparr> (world_of seeded_db)
   \<and> CreateCollection test_vault nobody customers (world_of seeded_db)
       = refused \<lparr>Actor = nobody, Action = PolicyActionWrite, Resource = COLLECTIONS_PPATH\<rparr> (world_of seeded_db)
   \<and> DeleteCollection test_vault nobody ''customers'' (world_of seeded_db)
       = refused \<lparr>Actor = nobody, Action = PolicyActionWrite, Resource = COLLECTIONS_PPATH @ ''/'' @ ''customers''\<rparr> (world_of seeded_db)
   \<and> CreateRecords test_vault nobody ''customers'' [[(''first_name'', ''Jane'')]] (world_of seeded_db)
       = refused \<lparr>Actor = nobody, Action = PolicyActionWrite, Resource = COLLECTIONS_PPATH @ ''/'' @ ''customers'' @ RECORDS_PPATH\<rparr> (world_of seeded_db)
   \<and> UpdateRecord test_vault nobody ''customers'' ''rec_'' [(''first_name'', ''Jane'')] (world_of seeded_db)
       = refused \<lparr>Actor = nobody, Action = PolicyActionWrite, Resource = COLLECTIONS_PPATH @ ''/'' @ ''customers'' @ RECORDS_PPATH\<rparr> (world_of seeded_db)
   \<and> DeleteRecord test_vault nobody ''customers'' ''rec_'' (world_of seeded_db)
       = refused \<lparr>Actor = nobody, Action = PolicyActionWrite, Resource = COLLECTIONS_PPATH @ ''/'' @ ''customers'' @ RECORDS_PPATH\<rparr> (world_of seeded_db)
   \<and> GetRecords test_vault nobody ''customers'' (''rec_'' # []) ((''first_name'', ''plain'') # []) (world_of seeded_db)
       = refused \<lparr>Actor = nobody, Action = PolicyActionRead, Resource = field_resource ''customers'' ''rec_'' ''first_name'' ''plain''\<rparr> (world_of seeded_db)
   \<and> CreateToken test_vault nobody ''customers'' ''rec_'' ''first_name'' ''plain'' (world_of seeded_db)
       = refused \<lparr>Actor = nobody, Action = PolicyActionRead, Resource = field_resource ''customers'' ''rec_'' ''first_name'' ''plain''\<rparr> (world_of seeded_db)
   \<and> GetPrincipal test_vault nobody ''admin'' (world_of seeded_db)
       = refused \<lparr>Actor = nobody, Action = PolicyActionRead, Resource = PRINCIPALS_PPATH @ ''/'' @ ''admin'' @ ''/''\<rparr> (world_of seeded_db)
   \<and> CreatePrincipal test_vault nobody admin (world_of seeded_db)
       = refused \<lparr>Actor = nobody, Action = PolicyActionWrite, Resource = PRINCIPALS_PPATH\<rparr> (world_of seeded_db)
   \<and> DeletePrincipal test_vault nobody ''admin'' (world_of seeded_db)
       = refused \<lparr>Actor = nobody, Action = PolicyActionWrite, Resource = PRINCIPALS_PPATH @ ''/'' @ ''admin'' @ ''/''\<rparr> (world_of seeded_db)
   \<and> CreatePolicy test_vault nobody admin_policy (world_of seeded_db)
       = refused \<lparr>Actor = nobody, Action = PolicyActionWrite, Resource = POLICIES_PPATH\<rparr> (world_of seeded_db)
   \<and> GetPolicy test_vault nobody ''admin'' (world_of seeded_db)
       = refused \<lparr>Actor = nobody, Action = PolicyActionRead, Resource = POLICIES_PPATH @ ''/'' @ ''admin''\<rparr> (world_of seeded_db)
   \<and> DeletePolicy test_vault nobody ''admin'' (world_of seeded_db)
       = refused \<lparr>Actor = nobody, Action = PolicyActionWrite, Resource = POLICIES_PPATH @ ''/'' @ ''admin''\<rparr> (world_of seeded_db)
   \<and> GetPrincipalPolicies test_vault nobody (world_of seeded_db)
       = refused \<lparr>Actor = nobody, Action = PolicyActionRead, Resource = POLICIES_PPATH\<rparr> (world_of seeded_db)
   \<and> CreateSubject test_vault nobody subject0 (world_of seeded_db)
       = refused \<lparr>Actor = nobody, Action = PolicyActionWrite, Resource = SUBJECTS_PPATH\<rparr> (world_of seeded_db)
   \<and> GetSubject test_vault nobody ''sub_'' (world_of seeded_db)
       = refused \<lparr>Actor = nobody, Action = PolicyActionRead, Resource = SUBJECTS_PPATH @ ''/'' @ ''sub_''\<rparr> (world_of seeded_db)
   \<and> DeleteSubject test_vault nobody ''sub_'' (world_of seeded_db)
       = refused \<lparr>Actor = nobody, Action = PolicyActionWrite, Resource = SUBJECTS_PPATH @ ''/'' @ ''sub_''\<rparr> (world_of seeded_db)"
    by simp
  have allowed: "fst (ValidateAction test_vault \<lparr>Actor = clerk, Action = PolicyActionRead,
            Resource = field_resource ''customers'' ''rec_'' ''first_name'' ''plain''\<rparr>
            (world_of clerk_db)) = Inr True"
    by (simp add: run_defs)
  have dc: "denied test_vault \<lparr>Actor = clerk, Action = PolicyActionRead,
         Resource = field_resource ''customers'' ''rec_2'' ''first_name'' ''plain''\<rparr> (world_of clerk_db)"
    by (simp add: denied_def run_defs)
  have hyp: "denied test_vault \<lparr>Actor = clerk, Action = PolicyActionRead,
         Resource = field_resource ''customers'' ''rec_2'' ''first_name'' ''plain''\<rparr> (world_of clerk_db)
        \<and> ''rec_2'' \<in> set [''rec_'', ''rec_2'']
        \<and> (''first_name'', ''plain'') \<in> set [(''first_name'', ''plain'')]"
    using dc by simp
  have later: "denied test_vault \<lparr>Actor = clerk, Action = PolicyActionRead,
         Resource = field_resource ''customers'' ''rec_2'' ''first_name'' ''plain''\<rparr> (world_of clerk_db)
        \<and> ''rec_2'' \<in> set [''rec_'', ''rec_2'']
        \<and> (''first_name'', ''plain'') \<in> set [(''first_name'', ''plain'')]
      \<longrightarrow> (\<exists>deniedID deniedField deniedFormat n.
            deniedID \<in> set [''rec_'', ''rec_2'']
            \<and> (deniedField, deniedFormat) \<in> set [(''first_name'', ''plain'')]
            \<and> denied test_vault \<lparr>Actor = clerk, Action = PolicyActionRead,
                  Resource = field_resource ''customers'' deniedID deniedField deniedFormat\<rparr>
                  (world_of clerk_db)
            \<and> GetRecords test_vault clerk ''customers'' [''rec_'', ''rec_2'']
                  [(''first_name'', ''plain'')] (world_of clerk_db)
                = (Inl (ForbiddenError \<lparr>Actor = clerk, Action = PolicyActionRead,
                          Resource = field_resource ''customers'' deniedID deniedField deniedFormat\<rparr>),
                   (world_of clerk_db)\<lparr>trace := trace (world_of clerk_db)
                      @ replicate (Suc n) (EvGetPolicies (prin_Policies clerk))\<rparr>))"
    using denied_principal_is_refused [where V = test_vault and prin = clerk and name = "''customers''"
      and w = "world_of clerk_db" and anyID = "''rec_2''" and anyField = "''first_name''"
      and anyFormat = "''plain''" and ids = "[''rec_'', ''rec_2'']"
      and formats = "[(''first_name'', ''plain'')]",
      THEN conjunct2, THEN conjunct2, THEN conjunct2, THEN conjunct2,
      THEN conjunct2, THEN conjunct2, THEN conjunct2, THEN conjunct2,
      THEN conjunct2, THEN conjunct2, THEN conjunct2, THEN conjunct2,
      THEN conjunct2, THEN conjunct2, THEN conjunct2, THEN conjunct2,
      THEN conjunct2]
    by simp
  from later hyp obtain deniedID deniedField deniedFormat n where
    "deniedID \<in> set [''rec_'', ''rec_2'']"
    "denied test_vault \<lparr>Actor = clerk, Action = PolicyActionRead,
        Resource = field_resource ''customers'' deniedID deniedField deniedFormat\<rparr> (world_of clerk_db)"
    by blast
  have run: "GetRecords test_vault clerk ''customers'' [''rec_'', ''rec_2''] [(''first_name'', ''plain'')]
        (world_of clerk_db)
       = (Inl (ForbiddenError \<lparr>Actor = clerk, Action = ''read'',
                 Resource = ''/collections/customers/records/rec_2/first_name.plain''\<rparr>),
          \<lparr>store = clerk_db, trace = [EvGetPolicies [''clerk''], EvGetPolicies [''clerk'']],
           minted = 0\<rparr>)"
    by (simp add: run_defs)
  from part allowed dc run show ?thesis by blast
qed

text \<open>
  C1 as stated fails. \<open>GetRecordsFilter\<close>, called by the principal without policies,
  asks the storage for the matching ids before any policy is evaluated: when nothing
  matches it answers \<open>ValueError\<close>, and when a record matches it answers
  \<open>ForbiddenError\<close> after the storage read. \<open>CreatePolicy\<close> with a resource without a
  leading \<open>/\<close> answers \<open>ValueError\<close> to the same principal.
\<close>

theorem GetRecordsFilter_reads_storage_first_counterexample:
  "denied test_vault \<lparr>Actor = nobody, Action = PolicyActionRead,
       Resource = field_resource ''customers'' ''rec_'' ''first_name'' ''plain''\<rparr> (world_of seeded_db)
   \<and> GetRecordsFilter test_vault nobody ''customers'' ''first_name'' ''Bob''
        [(''first_name'', ''plain'')] (world_of seeded_db)
       = (Inl (ValueError ''recordIDs must not be empty''),
          \<lparr>store = seeded_db,
           trace = [EvGetRecordsFilter ''customers'' ''first_name'' ''#Bob''], minted = 0\<rparr>)
   \<and> GetRecordsFilter test_vault nobody ''customers'' ''first_name'' ''John''
        [(''first_name'', ''plain'')] (world_of seeded_db)
       = (Inl (ForbiddenError \<lparr>Actor = nobody, Action = ''read'',
                 Resource = ''/collections/customers/records/rec_/first_name.plain''\<rparr>),
          \<lparr>store = seeded_db,
           trace = [EvGetRecordsFilter ''customers'' ''first_name'' ''#John'', EvGetPolicies []],
           minted = 0\<rparr>)
   \<and> denied test_vault \<lparr>Actor = nobody, Action = PolicyActionWrite, Resource = POLICIES_PPATH\<rparr>
        (world_of seeded_db)
   \<and> CreatePolicy test_vault nobody (admin_policy\<lparr>pol_Resources := [''policies'']\<rparr>) (world_of seeded_db)
       = (Inl (ValueError (''resources must start with a slash - '' @ [CHR 0x27] @ ''policies''
                           @ [CHR 0x27] @ '' is not a valid resource'')),
          world_of seeded_db)"
  by (simp add: denied_def run_defs GetRecordsFilter_def CreatePolicy_def Let_def)

subsection \<open>Privatiser errors\<close>

text \<open>
  C9 fails on \<open>GetRecordsFilter\<close>. With a privatiser whose \<open>Encrypt\<close> fails,
  \<open>GetRecordsFilter\<close> drops the error, looks the empty string up in storage and returns
  the \<open>ValueError\<close> of \<open>GetRecords\<close> for an empty id list; \<open>CreateRecords\<close> and
  \<open>UpdateRecord\<close> return the privatiser's error.
\<close>

theorem GetRecordsFilter_drops_Encrypt_error:
  "Priv_Encrypt broken_vault ''John'' = ([], Some (ErrorString ''encrypt failed''))
   \<and> GetRecordsFilter broken_vault admin ''customers'' ''first_name'' ''John''
        [(''first_name'', ''plain'')] (world_of seeded_db)
       = (Inl (ValueError ''recordIDs must not be empty''),
          \<lparr>store = seeded_db,
           trace = [EvGetRecordsFilter ''customers'' ''first_name'' []], minted = 0\<rparr>)
   \<and> fst (CreateRecords broken_vault admin ''customers'' [[(''first_name'', ''John'')]]
        (world_of seeded_db)) = Inl (ErrorString ''encrypt failed'')
   \<and> fst (UpdateRecord broken_vault admin ''customers'' ''rec_'' [(''first_name'', ''John'')]
        (world_of seeded_db)) = Inl (ErrorString ''encrypt failed'')"
  by (simp add: run_defs GetRecordsFilter_def CreateRecords_def UpdateRecord_def Let_def)

subsection \<open>Fields of stored records\<close>

text \<open>
  \<open>CreateRecords\<close> rejects every batch in which some record has a field that is not on
  the collection, before the storage is asked to create anything. \<open>UpdateRecord\<close> never
  reads the collection: whenever the principal may write and the values encrypt, the patch
  reaches \<open>Db.UpdateRecord\<close> with every one of its field names.
\<close>

lemma encrypt_fields_undeclared:
  assumes "(f, v) \<in> set flds" and "map_of (col_Fields col) f = None"
  shows "\<exists>e. encrypt_fields V col c flds acc = Inl e"
  using assms
proof (induction flds arbitrary: acc)
  case Nil
  then show ?case by simp
next
  case (Cons a flds)
  obtain f' v' where a: "a = (f', v')" by (cases a)
  show ?case
  proof (cases "(f, v) = a")
    case True
    with a Cons.prems(2) show ?thesis by simp
  next
    case False
    with Cons.prems have "(f, v) \<in> set flds" by auto
    from Cons.IH [OF this Cons.prems(2)]
    have "\<exists>e. encrypt_fields V col c flds acc' = Inl e" for acc' by blast
    with a show ?thesis
      by (auto split: option.splits sum.splits prod.splits)
  qed
qed

lemma encrypt_records_undeclared:
  assumes "r \<in> set records" and "(f, v) \<in> set r" and "map_of (col_Fields col) f = None"
  shows "\<exists>e. encrypt_records V col c records = Inl e"
  using assms
proof (induction records)
  case Nil
  then show ?case by simp
next
  case (Cons a records)
  show ?case
  proof (cases "r = a")
    case True
    with Cons.prems encrypt_fields_undeclared [of f v a col V c "[]"]
    show ?thesis by auto
  next
    case False
    with Cons.prems have "r \<in> set records" by auto
    from Cons.IH [OF this Cons.prems(2,3)] show ?thesis
      by (auto split: sum.splits)
  qed
qed

lemma CreateRecords_rejects_undeclared_field:
  assumes "r \<in> set records" and "(f, v) \<in> set r"
    and "db_GetCollection (Db V) c (store w) = Inr col"
    and "map_of (col_Fields col) f = None"
  shows "\<exists>e w'. CreateRecords V prin c records w = (Inl e, w') \<and> store w' = store w
           \<and> (\<forall>rs. EvCreateRecords c rs \<notin> set (drop (length (trace w)) (trace w')))"
proof -
  from encrypt_records_undeclared [OF assms(1,2,4)]
  obtain e where "encrypt_records V col c records = Inl e" by blast
  with assms(3) show ?thesis
    by (auto simp: CreateRecords_def authorize_run op_defs split: sum.splits)
qed

lemma encrypt_patch_keys:
  "encrypt_patch V patch acc = Inr er \<Longrightarrow> fst ` set er = fst ` set patch \<union> fst ` set acc"
proof (induction patch arbitrary: acc)
  case Nil
  then show ?case by simp
next
  case (Cons a patch)
  obtain f v where a: "a = (f, v)" by (cases a)
  from Cons.prems a obtain cph where
    "encrypt_patch V patch (AList.update f cph acc) = Inr er"
    by (auto split: prod.splits option.splits)
  from Cons.IH [OF this] a show ?case by (auto simp: dom_update)
qed

lemma encrypt_patch_succeeds:
  "\<forall>v \<in> snd ` set patch. snd (Priv_Encrypt V v) = None \<Longrightarrow> \<exists>er. encrypt_patch V patch acc = Inr er"
proof (induction patch arbitrary: acc)
  case Nil
  then show ?case by simp
next
  case (Cons a patch)
  obtain f v where a: "a = (f, v)" by (cases a)
  with Cons.prems obtain cph where "Priv_Encrypt V v = (cph, None)"
    by (cases "Priv_Encrypt V v") auto
  moreover have "\<exists>er. encrypt_patch V patch (AList.update f cph acc) = Inr er"
    using Cons.prems by (intro Cons.IH) auto
  ultimately show ?case using a by auto
qed

lemma UpdateRecord_passes_every_field:
  assumes "fst (ValidateAction V \<lparr>Actor = prin, Action = PolicyActionWrite,
             Resource = COLLECTIONS_PPATH @ ''/'' @ c @ RECORDS_PPATH\<rparr> w) = Inr True"
    and "\<forall>v \<in> snd ` set patch. snd (Priv_Encrypt V v) = None"
  shows "\<exists>er. fst ` set er = fst ` set patch
           \<and> trace (snd (UpdateRecord V prin c rid patch w))
               = trace w @ [EvGetPolicies (prin_Policies prin), EvUpdateRecord c rid er]
           \<and> fst (UpdateRecord V prin c rid patch w) = fst (db_UpdateRecord (Db V) c rid er (store w))"
proof -
  from encrypt_patch_succeeds [OF assms(2)] obtain er where er: "encrypt_patch V patch [] = Inr er"
    by blast
  from encrypt_patch_keys [OF er] have "fst ` set er = fst ` set patch" by simp
  moreover from assms(1) er have
    "trace (snd (UpdateRecord V prin c rid patch w))
               = trace w @ [EvGetPolicies (prin_Policies prin), EvUpdateRecord c rid er]
     \<and> fst (UpdateRecord V prin c rid patch w) = fst (db_UpdateRecord (Db V) c rid er (store w))"
    by (auto simp: UpdateRecord_def ValidateAction_run authorize_run op_defs
        split: sum.splits prod.splits)
  ultimately show ?thesis by blast
qed

text \<open>
  C6 fails on \<open>UpdateRecord\<close>. The field \<open>invalid_field\<close> is not on the collection:
  \<open>CreateRecords\<close> rejects a record with it by a \<open>ValueError\<close>, and \<open>UpdateRecord\<close>
  encrypts it and hands it to the storage, which now holds a record with a field the
  collection does not declare.
\<close>

theorem UpdateRecord_stores_undeclared_field:
  "map_of (col_Fields customers) ''invalid_field'' = None
   \<and> fst (CreateRecords test_vault admin ''customers'' [[(''invalid_field'', ''John'')]]
        (world_of seeded_db))
       = Inl (ValueError ''Field invalid_field not found on collection customers'')
   \<and> UpdateRecord test_vault admin ''customers'' ''rec_'' [(''invalid_field'', ''John'')]
        (world_of seeded_db)
       = (Inr (),
          \<lparr>store = seeded_db\<lparr>m_records :=
              [((''customers'', ''rec_''), [(''first_name'', ''#John''), (''invalid_field'', ''#John'')])]\<rparr>,
           trace = [EvGetPolicies [''admin''],
                    EvUpdateRecord ''customers'' ''rec_'' [(''invalid_field'', ''#John'')]],
           minted = 0\<rparr>)"
  by (simp add: run_defs CreateRecords_def UpdateRecord_def)

subsection \<open>Create, then read\<close>

lemma update_fresh: "k \<notin> fst ` set al \<Longrightarrow> AList.update k v al = al @ [(k, v)]"
  by (induct al) auto

lemma CreateRecords_success:
  assumes "CreateRecords V p C recs w = (Inr ids, w1)"
  shows "\<exists>col ers. db_GetCollection (Db V) C (store w) = Inr col
           \<and> encrypt_records V col C recs = Inr ers
           \<and> db_CreateRecords (Db V) C ers (store w) = (Inr ids, store w1)"
  using assms
  by (auto simp: CreateRecords_def authorize_run op_defs split: sum.splits prod.splits if_splits)

lemma encrypt_fields_ok:
  "encrypt_fields V col C R acc = Inr er \<Longrightarrow> distinct (map fst R) \<Longrightarrow>
     (\<forall>k. k \<notin> fst ` set R \<longrightarrow> map_of er k = map_of acc k)
     \<and> (\<forall>f v. (f, v) \<in> set R \<longrightarrow>
          (\<exists>fld pv cph. map_of (col_Fields col) f = Some fld
             \<and> GetPType V (fld_Type fld) v = Inr pv
             \<and> Priv_Encrypt V v = (cph, None)
             \<and> map_of er f = Some cph))"
proof (induction R arbitrary: acc)
  case Nil
  then show ?case by simp
next
  case (Cons a R)
  obtain f v where a: "a = (f, v)" by (cases a)
  from Cons.prems(1) a obtain fld pv cph where
    fld: "map_of (col_Fields col) f = Some fld"
    and pv: "GetPType V (fld_Type fld) v = Inr pv"
    and cph: "Priv_Encrypt V v = (cph, None)"
    and rest: "encrypt_fields V col C R (AList.update f cph acc) = Inr er"
    by (auto split: option.splits sum.splits prod.splits)
  from Cons.prems(2) a have dR: "distinct (map fst R)" and fresh: "f \<notin> fst ` set R"
    by auto
  from Cons.IH [OF rest dR] have
    keep: "\<forall>k. k \<notin> fst ` set R \<longrightarrow> map_of er k = map_of (AList.update f cph acc) k"
    and others: "\<forall>f v. (f, v) \<in> set R \<longrightarrow>
          (\<exists>fld pv cph. map_of (col_Fields col) f = Some fld
             \<and> GetPType V (fld_Type fld) v = Inr pv
             \<and> Priv_Encrypt V v = (cph, None)
             \<and> map_of er f = Some cph)"
    by blast+
  from keep fresh have here: "map_of er f = Some cph"
    by (simp add: update_conv')
  have "\<forall>k. k \<notin> fst ` set (a # R) \<longrightarrow> map_of er k = map_of acc k"
    using keep a by (auto simp: update_conv')
  moreover have "\<forall>f' v'. (f', v') \<in> set (a # R) \<longrightarrow>
          (\<exists>fld pv cph. map_of (col_Fields col) f' = Some fld
             \<and> GetPType V (fld_Type fld) v' = Inr pv
             \<and> Priv_Encrypt V v' = (cph, None)
             \<and> map_of er f' = Some cph)"
    using a fld pv cph here others by auto
  ultimately show ?case by blast
qed

lemma authorize_formats_allowed:
  assumes "\<forall>f fmt. (f, fmt) \<in> set fmts \<longrightarrow>
      fst (ValidateAction V \<lparr>Actor = p, Action = PolicyActionRead,
             Resource = field_resource c rid f fmt\<rparr> w0) = Inr True"
    and "store w = store w0"
  shows "\<exists>w'. authorize_formats V p c rid fmts w = (Inr (), w') \<and> store w' = store w0"
  using assms
proof (induction fmts arbitrary: w)
  case Nil
  then show ?case by (simp add: returnE_def)
next
  case (Cons a fmts)
  obtain f fmt where a: "a = (f, fmt)" by (cases a)
  let ?req = "\<lparr>Actor = p, Action = PolicyActionRead, Resource = field_resource c rid f fmt\<rparr>"
  let ?w1 = "w\<lparr>trace := trace w @ [EvGetPolicies (prin_Policies p)]\<rparr>"
  from Cons.prems a have "fst (ValidateAction V ?req w0) = Inr True" by simp
  with Cons.prems(2) have "authorize V ?req w = (Inr (), ?w1)"
    by (auto simp: ValidateAction_run authorize_run split: sum.splits)
  moreover have "\<exists>w'. authorize_formats V p c rid fmts ?w1 = (Inr (), w') \<and> store w' = store w0"
    using Cons.prems by (intro Cons.IH) auto
  ultimately show ?case using a by (auto simp: bindE_def)
qed

lemma fields_exist_all:
  "(\<forall>f fmt. (f, fmt) \<in> set fmts \<longrightarrow> map_of (col_Fields col) f \<noteq> None)
     \<Longrightarrow> fields_exist col c fmts = None"
proof (induction fmts)
  case Nil
  then show ?case by simp
next
  case (Cons a fmts)
  obtain f fmt where a: "a = (f, fmt)" by (cases a)
  from Cons.prems a obtain fld where "map_of (col_Fields col) f = Some fld" by auto
  moreover have "fields_exist col c fmts = None" using Cons.prems by (intro Cons.IH) auto
  ultimately show ?case using a by simp
qed

lemma decrypt_fields_plain:
  assumes "distinct (map fst R)"
    and "fst ` set acc \<inter> fst ` set R = {}"
    and "\<forall>f v. (f, v) \<in> set R \<longrightarrow>
          (\<exists>pv. Priv_Decrypt V (value_of record f) = (v, None)
             \<and> GetPType V (fld_Type (field_of col f)) v = Inr pv
             \<and> PType_Get V pv ''plain'' = Inr v)"
  shows "decrypt_fields V col record (map (\<lambda>(f, v). (f, ''plain'')) R) acc = Inr (acc @ R)"
  using assms
proof (induction R arbitrary: acc)
  case Nil
  then show ?case by simp
next
  case (Cons a R)
  obtain f v where a: "a = (f, v)" by (cases a)
  from Cons.prems(3) a obtain pv where
    d: "Priv_Decrypt V (value_of record f) = (v, None)"
    and g: "GetPType V (fld_Type (field_of col f)) v = Inr pv"
    and r: "PType_Get V pv ''plain'' = Inr v"
    by auto
  from Cons.prems(2) a have fresh: "f \<notin> fst ` set acc" by auto
  have "decrypt_fields V col record (map (\<lambda>(f, v). (f, ''plain'')) R) (acc @ [(f, v)])
          = Inr ((acc @ [(f, v)]) @ R)"
  proof (rule Cons.IH)
    show "distinct (map fst R)" using Cons.prems(1) by simp
    show "fst ` set (acc @ [(f, v)]) \<inter> fst ` set R = {}"
      using Cons.prems(1,2) a by auto
    show "\<forall>f v. (f, v) \<in> set R \<longrightarrow>
          (\<exists>pv. Priv_Decrypt V (value_of record f) = (v, None)
             \<and> GetPType V (fld_Type (field_of col f)) v = Inr pv
             \<and> PType_Get V pv ''plain'' = Inr v)"
      using Cons.prems(3) by auto
  qed
  with a d g r fresh show ?case by (simp add: update_fresh)
qed

text \<open>
  C2. Let the storage keep records, the privatiser invert and \<open>plain\<close> render the raw
  value. For every record \<open>R\<close> (a map: its field names are distinct), if
  \<open>CreateRecords(C, [R])\<close> returns the id \<open>rid\<close>, then \<open>GetRecords(C, [rid], {f: plain
  for every field f of R})\<close> by a principal allowed to read each of these fields returns
  exactly \<open>R\<close> under \<open>rid\<close>. That the fields of \<open>R\<close> are on the collection and that the
  values parse follows from the success of \<open>CreateRecords\<close>.
\<close>

theorem create_then_read_round_trip:
  assumes storage: "storage_keeps_records (Db V)"
    and priv: "privatiser_inverts V"
    and ptype: "plain_renders_raw V"
    and keys: "distinct (map fst R)"
    and created: "CreateRecords V writer C [R] w = (Inr [rid], w1)"
    and authorized: "\<forall>f \<in> fst ` set R.
        fst (ValidateAction V \<lparr>Actor = reader, Action = PolicyActionRead,
               Resource = field_resource C rid f ''plain''\<rparr> w1) = Inr True"
  shows "fst (GetRecords V reader C [rid] (map (\<lambda>(f, v). (f, ''plain'')) R) w1) = Inr [(rid, R)]"
proof -
  let ?fmts = "map (\<lambda>(f, v). (f, ''plain'')) R"
  from CreateRecords_success [OF created] obtain col ers where
    col: "db_GetCollection (Db V) C (store w) = Inr col"
    and ers: "encrypt_records V col C [R] = Inr ers"
    and stored: "db_CreateRecords (Db V) C ers (store w) = (Inr [rid], store w1)"
    by blast
  from ers obtain er where er: "encrypt_fields V col C R [] = Inr er" and ers_eq: "ers = [er]"
    by (auto split: sum.splits)
  from encrypt_fields_ok [OF er keys] have fields:
    "\<forall>f v. (f, v) \<in> set R \<longrightarrow>
          (\<exists>fld pv cph. map_of (col_Fields col) f = Some fld
             \<and> GetPType V (fld_Type fld) v = Inr pv
             \<and> Priv_Encrypt V v = (cph, None)
             \<and> map_of er f = Some cph)"
    by blast
  from storage stored ers_eq obtain er' where
    got: "db_GetRecords (Db V) C [rid] (store w1) = Inr [(rid, er')]"
    and same: "map_of er' = map_of er"
    and col1: "db_GetCollection (Db V) C (store w1) = Inr col"
    using col unfolding storage_keeps_records_def by metis
  have allowed: "\<forall>f fmt. (f, fmt) \<in> set ?fmts \<longrightarrow>
        fst (ValidateAction V \<lparr>Actor = reader, Action = PolicyActionRead,
               Resource = field_resource C rid f fmt\<rparr> w1) = Inr True"
    using authorized by force
  from authorize_formats_allowed [OF allowed refl] obtain w2 where
    auth: "authorize_formats V reader C rid ?fmts w1 = (Inr (), w2)" and st: "store w2 = store w1"
    by blast
  have auth': "authorize_records V reader C [rid] ?fmts w1 = (Inr (), w2)"
    using auth by (simp add: bindE_def returnE_def)
  have exist: "fields_exist col C ?fmts = None"
    using fields by (intro fields_exist_all) auto
  have "decrypt_fields V col er' ?fmts [] = Inr ([] @ R)"
  proof (rule decrypt_fields_plain [OF keys])
    show "fst ` set [] \<inter> fst ` set R = {}" by simp
    show "\<forall>f v. (f, v) \<in> set R \<longrightarrow>
          (\<exists>pv. Priv_Decrypt V (value_of er' f) = (v, None)
             \<and> GetPType V (fld_Type (field_of col f)) v = Inr pv
             \<and> PType_Get V pv ''plain'' = Inr v)"
    proof (intro allI impI)
      fix f v assume "(f, v) \<in> set R"
      with fields obtain fld pv cph where
        "map_of (col_Fields col) f = Some fld" "GetPType V (fld_Type fld) v = Inr pv"
        "Priv_Encrypt V v = (cph, None)" "map_of er f = Some cph"
        by blast
      with same priv ptype
      show "\<exists>pv. Priv_Decrypt V (value_of er' f) = (v, None)
             \<and> GetPType V (fld_Type (field_of col f)) v = Inr pv
             \<and> PType_Get V pv ''plain'' = Inr v"
        unfolding privatiser_inverts_def plain_renders_raw_def
        by (auto simp: value_of_def field_of_def)
    qed
  qed
  then have dec: "decrypt_records V col ?fmts [(rid, er')] [] = Inr [(rid, R)]"
    by simp
  show ?thesis
    using auth' st col1 exist got dec by (simp add: GetRecords_run)
qed

lemma mem_store_keeps_records: "storage_keeps_records mem_store"
  unfolding storage_keeps_records_def
proof (intro allI impI)
  fix s s' :: mem_db and c er rid
  assume a: "db_CreateRecords mem_store c [er] s = (Inr [rid], s')"
  then have rid: "rid = ''rec_'' @ replicate (m_next s) CHR ''1''"
    and s': "s' = s\<lparr>m_records := AList.update (c, rid) er (m_records s), m_next := m_next s + 1\<rparr>"
    by (auto simp: mem_store_def mem_CreateRecords_def split: option.splits)
  have "db_GetRecords mem_store c [rid] s' = Inr [(rid, er)]"
    using s' by (simp add: mem_store_def mem_GetRecords_def update_conv')
  moreover have "db_GetCollection mem_store c s' = db_GetCollection mem_store c s"
    using s' by (simp add: mem_store_def mem_GetCollection_def)
  ultimately show "(\<exists>er'. db_GetRecords mem_store c [rid] s' = Inr [(rid, er')] \<and> map_of er' = map_of er)
        \<and> db_GetCollection mem_store c s' = db_GetCollection mem_store c s"
    by blast
qed

lemma created_Jane:
  "CreateRecords test_vault admin ''customers'' [[(''first_name'', ''Jane'')]] (world_of seeded_db)
     = (Inr [''rec_1''],
        \<lparr>store = seeded_db\<lparr>m_records := [((''customers'', ''rec_''), [(''first_name'', ''#John'')]),
                                         ((''customers'', ''rec_1''), [(''first_name'', ''#Jane'')])],
                            m_next := 2\<rparr>,
         trace = [EvGetPolicies [''admin''], EvGetCollection ''customers'',
                  EvCreateRecords ''customers'' [[(''first_name'', ''#Jane'')]]],
         minted = 0\<rparr>)"
  by (simp add: run_defs CreateRecords_def)

theorem create_then_read_round_trip_witness:
  "storage_keeps_records (Db test_vault) \<and> privatiser_inverts test_vault \<and> plain_renders_raw test_vault
   \<and> distinct (map fst [(''first_name'', ''Jane'')])
   \<and> fst (CreateRecords test_vault admin ''customers'' [[(''first_name'', ''Jane'')]] (world_of seeded_db))
       = Inr [''rec_1'']
   \<and> fst (ValidateAction test_vault \<lparr>Actor = admin, Action = PolicyActionRead,
            Resource = field_resource ''customers'' ''rec_1'' ''first_name'' ''plain''\<rparr>
            (snd (CreateRecords test_vault admin ''customers'' [[(''first_name'', ''Jane'')]]
               (world_of seeded_db)))) = Inr True
   \<and> fst (GetRecords test_vault admin ''customers'' [''rec_1''] [(''first_name'', ''plain'')]
        (snd (CreateRecords test_vault admin ''customers'' [[(''first_name'', ''Jane'')]]
           (world_of seeded_db))))
       = Inr [(''rec_1'', [(''first_name'', ''Jane'')])]"
proof -
  let ?w1 = "snd (CreateRecords test_vault admin ''customers'' [[(''first_name'', ''Jane'')]]
               (world_of seeded_db))"
  have a: "storage_keeps_records (Db test_vault)"
    using mem_store_keeps_records by (simp add: test_vault_def)
  have b: "privatiser_inverts test_vault"
    by (auto simp: privatiser_inverts_def test_vault_def test_Encrypt_def test_Decrypt_def)
  have c: "plain_renders_raw test_vault"
    by (auto simp: plain_renders_raw_def test_vault_def test_GetPType_def test_PType_Get_def
        split: if_splits)
  have d: "distinct (map fst [(''first_name'', ''Jane'')])" by simp
  have e: "CreateRecords test_vault admin ''customers'' [[(''first_name'', ''Jane'')]] (world_of seeded_db)
             = (Inr [''rec_1''], ?w1)"
    by (simp add: created_Jane)
  have v: "fst (ValidateAction test_vault \<lparr>Actor = admin, Action = PolicyActionRead,
            Resource = field_resource ''customers'' ''rec_1'' ''first_name'' ''plain''\<rparr> ?w1) = Inr True"
    by (simp add: created_Jane) (simp add: run_defs)
  then have f: "\<forall>f \<in> fst ` set [(''first_name'', ''Jane'')].
        fst (ValidateAction test_vault \<lparr>Actor = admin, Action = PolicyActionRead,
               Resource = field_resource ''customers'' ''rec_1'' f ''plain''\<rparr> ?w1) = Inr True"
    by simp
  have e1: "fst (CreateRecords test_vault admin ''customers'' [[(''first_name'', ''Jane'')]]
                  (world_of seeded_db)) = Inr [''rec_1'']"
    by (simp add: created_Jane)
  have g: "fst (GetRecords test_vault admin ''customers'' [''rec_1''] [(''first_name'', ''plain'')] ?w1)
             = Inr [(''rec_1'', [(''first_name'', ''Jane'')])]"
    using create_then_read_round_trip [OF a b c d e f] by simp
  from a b c d e1 v g show ?thesis by blast
qed

end
